theory Spec2Isabelle
  imports Complex_Main
begin

section \<open>Taming Trees: the shared-world state engine of the game server\<close>

text \<open>
  The development embeds the server module (the Express router with the grid allocator,
  \<open>src/unnamed/part_001\<close>; the older \<open>src/src/server/index.ts\<close> agrees with it on every
  function both contain) and the shared types of \<open>src/src/shared/types/api.ts\<close>.

  Conventions of the embedding.
  \<^item> A TypeScript object type is a record. Record fields are global names in HOL, so each
    field carries a prefix naming its type: \<open>p_coins\<close> is \<open>Player.coins\<close>, \<open>r_coins\<close> is
    \<open>GameState.resources.coins\<close>, \<open>t_growthStage\<close> is \<open>Tree.growthStage\<close>, and so on.
  \<^item> A JavaScript number is an IEEE double. Fields that hold integers (time stamps of
    \<open>Date.now()\<close>, coins, seeds, counts, levels) are of type \<open>int\<close>, world coordinates
    are of type \<open>real\<close>; the values that occur are the doubles among them. Arithmetic
    on request data and on stored balances and coordinates is rounded to the nearest
    double as the source's is (section on JavaScript numbers). The growth formula works
    on time stamps and the grid allocator on cell indices below 200, where rounding
    does not change the results: they are written over the reals and floored where the
    source floors.
  \<^item> \<open>Date.now()\<close> and \<open>Math.random()\<close> are inputs: every function that reads the clock
    takes \<open>now\<close> (one reading per request), every generated identifier is a parameter.
  \<^item> A request runs to completion before the next one starts; interleaved requests are
    outside the model. Store calls succeed, but for one failing write that is modelled:
    the second write of a seed purchase.
\<close>

subsection \<open>Shared types\<close>

datatype TreeType = oak | pine | cherry | maple | cedar

datatype BiomeType = forest | meadow | hills | lake | mountain

datatype AchievementCategory = planting | harvesting | exploration | social | economy | mastery

record Position =
  pos_x :: real
  pos_y :: real
  pos_z :: real

record Tree =
  t_id :: string
  t_type :: TreeType
  t_x :: real
  t_y :: real
  t_z :: real
  t_growthStage :: int
  t_plantedAt :: int
  t_lastWatered :: int
  t_health :: int
  t_ownerId :: string

record LandPlot =
  lp_id :: string
  lp_x :: real
  lp_z :: real
  lp_ownerId :: string
  lp_biomeType :: BiomeType
  lp_trees :: "string list"
  lp_purchasedAt :: int
  lp_price :: int

record Achievement =
  a_id :: string
  a_name :: string
  a_description :: string
  a_icon :: string
  a_unlockedAt :: int
  a_category :: AchievementCategory

record PremiumFeatures =
  speedBoost :: bool
  doubleXP :: bool
  instantGrowth :: bool

record Player =
  p_id :: string
  p_username :: string
  p_avatar :: string
  p_level :: int
  p_experience :: int
  p_coins :: int
  p_redditGold :: int
  p_achievements :: "Achievement list"
  p_landPlots :: "string list"
  p_position :: Position
  p_lastActive :: int
  p_premiumFeatures :: PremiumFeatures

record Environment =
  skyColor :: string
  groundColor :: string
  fogColor :: string

record Biome =
  b_id :: string
  b_name :: string
  b_type :: BiomeType
  b_maxPlayers :: int
  b_landPlots :: "LandPlot list"
  b_players :: "Player list"
  b_environment :: Environment

record Resources =
  r_seeds :: int
  r_water :: int
  r_fertilizer :: int
  r_coins :: int

record GameState =
  gs_player :: Player
  gs_currentBiome :: Biome
  gs_trees :: "Tree list"
  gs_resources :: Resources
  gs_lastPlayed :: int

record ChatMessage =
  cm_id :: string
  cm_playerId :: string
  cm_username :: string
  cm_message :: string
  cm_timestamp :: int
  cm_system :: bool

subsection \<open>Configuration constants\<close>

definition WORLD_WIDTH :: nat where "WORLD_WIDTH = 2000"
definition WORLD_HEIGHT :: nat where "WORLD_HEIGHT = 4000"
definition PLOT_WIDTH :: nat where "PLOT_WIDTH = 10"
definition PLOT_HEIGHT :: nat where "PLOT_HEIGHT = 20"
definition MAX_PLAYERS :: nat where "MAX_PLAYERS = 200"

definition GRID_WIDTH :: nat where "GRID_WIDTH = WORLD_WIDTH div PLOT_WIDTH"
definition GRID_HEIGHT :: nat where "GRID_HEIGHT = WORLD_HEIGHT div PLOT_HEIGHT"

definition GROWTH_TIME :: int where "GROWTH_TIME = 30000"
definition MAX_TREES_PER_PLOT :: nat where "MAX_TREES_PER_PLOT = 5"
definition SEED_COST :: int where "SEED_COST = 10"
definition LAND_PLOT_COST :: int where "LAND_PLOT_COST = 100"

subsection \<open>JavaScript array helpers\<close>

text \<open>
  \<open>Array.prototype.slice(start)\<close> for an integer \<open>start\<close>: a negative start counts from
  the end and is clamped at the front, a non-negative one is clamped at the length.
  \<open>-0\<close> is \<open>0\<close>, so \<open>slice(-0)\<close> is the whole array.
\<close>

definition slice_from :: "int \<Rightarrow> 'a list \<Rightarrow> 'a list" where
  "slice_from start xs =
     (let len = int (length xs);
          k = (if start < 0 then max (len + start) 0 else min start len)
      in drop (nat k) xs)"

text \<open>\<open>Array.prototype.findIndex\<close>: the first index whose element satisfies the test.\<close>

fun findIndex :: "('a \<Rightarrow> bool) \<Rightarrow> 'a list \<Rightarrow> nat option" where
  "findIndex P [] = None"
| "findIndex P (x # xs) =
     (if P x then Some 0 else map_option Suc (findIndex P xs))"

text \<open>
  An object found by \<open>Array.prototype.find\<close> is shared with the array: mutating it
  mutates the array's first element that satisfies the test.
\<close>

fun update_first :: "('a \<Rightarrow> bool) \<Rightarrow> ('a \<Rightarrow> 'a) \<Rightarrow> 'a list \<Rightarrow> 'a list" where
  "update_first P f [] = []"
| "update_first P f (x # xs) = (if P x then f x # xs else x # update_first P f xs)"

text \<open>\<open>splice(i, 1)\<close>: remove the element at index \<open>i\<close>.\<close>

definition splice1 :: "nat \<Rightarrow> 'a list \<Rightarrow> 'a list" where
  "splice1 i xs = take i xs @ drop (Suc i) xs"

subsection \<open>JavaScript numbers\<close>

text \<open>
  Every arithmetic operation of the source yields the double nearest to the exact result,
  ties going to the even significand (IEEE 754 binary64, round to nearest even).
  \<open>rne\<close> rounds a real to the nearest integer, ties to even. \<open>binade x\<close> is the exponent
  of the binade of \<open>x\<close>, held at \<open>-1022\<close> for subnormal numbers, so that the doubles around
  \<open>x\<close> are the multiples of \<open>2^(binade x - 52)\<close>. \<open>fl x\<close> is the nearest double, were the
  exponent range unbounded above; \<open>dval x\<close> is the result of an operation whose exact
  value is \<open>x\<close>: the double \<open>fl x\<close>, or \<open>None\<close> when the operation overflows to
  \<open>Infinity\<close> or \<open>-Infinity\<close>.
\<close>

definition rne :: "real \<Rightarrow> int" where
  "rne r = (let f = \<lfloor>r\<rfloor>; d = r - of_int f
            in if d < 1 / 2 then f else if 1 / 2 < d then f + 1
               else if even f then f else f + 1)"

definition binade :: "real \<Rightarrow> int" where
  "binade x = max \<lfloor>log 2 \<bar>x\<bar>\<rfloor> (- 1022)"

definition fl :: "real \<Rightarrow> real" where
  "fl x = (if x = 0 then 0
           else (let u = 2 powi (binade x - 52) in of_int (rne (x / u)) * u))"

definition maxDouble :: real where
  "maxDouble = (2 ^ 53 - 1) * 2 ^ 971"

definition dval :: "real \<Rightarrow> real option" where
  "dval x = (if maxDouble < \<bar>fl x\<bar> then None else Some (fl x))"

text \<open>
  The same on integer fields. A double of magnitude \<open>2^53\<close> or more is an integer, and
  below \<open>2^53\<close> every integer is a double, so the nearest double to an integer is an
  integer. \<open>num n\<close> is that double; \<open>dint n\<close> is \<open>None\<close> when the operation overflows;
  \<open>isNumber n\<close> says that \<open>n\<close> is a finite double, a value a request can carry.
\<close>

definition num :: "int \<Rightarrow> int" where
  "num n = \<lfloor>fl (of_int n)\<rfloor>"

definition dint :: "int \<Rightarrow> int option" where
  "dint n = map_option floor (dval (of_int n))"

definition isNumber :: "int \<Rightarrow> bool" where
  "isNumber n = (dint n = Some n)"

text \<open>
  \<open>Math.abs(a - b) < c\<close>: the difference is rounded; an infinite difference is not
  below \<open>c\<close>.
\<close>

definition absDiffBelow :: "real \<Rightarrow> real \<Rightarrow> real \<Rightarrow> bool" where
  "absDiffBelow a b c = (case dval (a - b) of None \<Rightarrow> False | Some d \<Rightarrow> \<bar>d\<bar> < c)"

subsection \<open>Chat ring buffer\<close>

definition addChatMessage ::
  "string \<Rightarrow> int \<Rightarrow> string \<Rightarrow> string \<Rightarrow> string \<Rightarrow> bool \<Rightarrow> ChatMessage list
     \<Rightarrow> ChatMessage \<times> ChatMessage list" where
  "addChatMessage newId now playerId username message isSystem chatMessages =
     (let chatMessage = \<lparr> cm_id = newId, cm_playerId = playerId, cm_username = username,
                           cm_message = message, cm_timestamp = now, cm_system = isSystem \<rparr>;
          pushed = chatMessages @ [chatMessage]
      in (chatMessage, if length pushed > 100 then slice_from (- 100) pushed else pushed))"

definition getRecentChatMessages :: "int \<Rightarrow> ChatMessage list \<Rightarrow> ChatMessage list" where
  "getRecentChatMessages limit chatMessages = slice_from (- limit) chatMessages"

subsection \<open>Grid allocation\<close>

text \<open>
  \<open>claimedPlots\<close> is a \<open>Set<string>\<close> of keys \<open>"gridX,gridZ"\<close>. The key of a pair of
  natural numbers determines the pair, so the set is modelled as a set of pairs.
  The two nested \<open>for\<close> loops of \<open>findAvailablePlot\<close> are the functions \<open>scanZ\<close> (inner)
  and \<open>scanX\<close> (outer).
\<close>

function scanZ :: "(nat \<times> nat) set \<Rightarrow> nat \<Rightarrow> nat \<Rightarrow> (nat \<times> nat) option" where
  "scanZ claimedPlots gridX gridZ =
     (if gridZ < GRID_HEIGHT
      then (if (gridX, gridZ) \<notin> claimedPlots then Some (gridX, gridZ)
            else scanZ claimedPlots gridX (gridZ + 1))
      else None)"
  by pat_completeness auto
termination
  by (relation "measure (\<lambda>(c, gx, gz). GRID_HEIGHT - gz)") auto

function scanX :: "(nat \<times> nat) set \<Rightarrow> nat \<Rightarrow> (nat \<times> nat) option" where
  "scanX claimedPlots gridX =
     (if gridX < GRID_WIDTH
      then (case scanZ claimedPlots gridX 0 of
              Some cell \<Rightarrow> Some cell
            | None \<Rightarrow> scanX claimedPlots (gridX + 1))
      else None)"
  by pat_completeness auto
termination
  by (relation "measure (\<lambda>(c, gx). GRID_WIDTH - gx)") auto

declare scanZ.simps [simp del] scanX.simps [simp del]

definition findAvailablePlot :: "(nat \<times> nat) set \<Rightarrow> (nat \<times> nat) option" where
  "findAvailablePlot claimedPlots = scanX claimedPlots 0"

text \<open>\<open>claimPlot\<close> returns its boolean result and the set after the call.\<close>

definition claimPlot :: "nat \<Rightarrow> nat \<Rightarrow> (nat \<times> nat) set \<Rightarrow> bool \<times> (nat \<times> nat) set" where
  "claimPlot gridX gridZ claimedPlots =
     (if (gridX, gridZ) \<in> claimedPlots then (False, claimedPlots)
      else if card claimedPlots \<ge> MAX_PLAYERS then (False, claimedPlots)
      else (True, insert (gridX, gridZ) claimedPlots))"

record PlotCoordinates =
  startX :: real
  startZ :: real
  endX :: real
  endZ :: real
  centerX :: real
  centerZ :: real

definition getPlotWorldCoordinates :: "nat \<Rightarrow> nat \<Rightarrow> PlotCoordinates" where
  "getPlotWorldCoordinates gridX gridZ =
     (let sX = real gridX * real PLOT_WIDTH - real WORLD_WIDTH / 2;
          sZ = real gridZ * real PLOT_HEIGHT - real WORLD_HEIGHT / 2
      in \<lparr> startX = sX, startZ = sZ,
           endX = sX + real PLOT_WIDTH, endZ = sZ + real PLOT_HEIGHT,
           centerX = sX + real PLOT_WIDTH / 2, centerZ = sZ + real PLOT_HEIGHT / 2 \<rparr>)"

subsection \<open>Growth engine\<close>

definition calculateTreeGrowth :: "Tree \<Rightarrow> int \<Rightarrow> int" where
  "calculateTreeGrowth tree now =
     (let timeSincePlanted = now - t_plantedAt tree;
          timeSinceWatered = now - t_lastWatered tree;
          waterBonus = (if timeSinceWatered < 60000 then 3 / 2 else (1::real));
          growthStages = \<lfloor>(real_of_int timeSincePlanted * waterBonus) / real_of_int GROWTH_TIME\<rfloor>
      in min growthStages 5)"

text \<open>The quotient, the difference, the product and the last difference are rounded.\<close>

definition calculateTreeHealth :: "Tree \<Rightarrow> int \<Rightarrow> real" where
  "calculateTreeHealth tree now =
     (let timeSinceWatered = now - t_lastWatered tree;
          hoursSinceWatered = fl (real_of_int timeSinceWatered / (1000 * 60 * 60));
          healthLoss = fl (max 0 (fl (hoursSinceWatered - 1)) * 10)
      in max 0 (fl (100 - healthLoss)))"

text \<open>
  The growth formula as the design document words it:
  \<open>min(maxStage, floor((now - plantedAt) * waterBonus(tree, now) / growthPeriod))\<close> with
  \<open>waterBonus = 1.5\<close> if \<open>now - lastWatered < wateredWindow\<close> and \<open>1.0\<close> otherwise.
\<close>

definition maxStage :: int where "maxStage = 5"
definition growthPeriod :: real where "growthPeriod = 30000"
definition wateredWindow :: int where "wateredWindow = 60000"

definition waterBonus_spec :: "Tree \<Rightarrow> int \<Rightarrow> real" where
  "waterBonus_spec tree now = (if now - t_lastWatered tree < wateredWindow then 1.5 else 1.0)"

definition growthStage_spec :: "Tree \<Rightarrow> int \<Rightarrow> int" where
  "growthStage_spec tree now =
     min maxStage \<lfloor>real_of_int (now - t_plantedAt tree) * waterBonus_spec tree now / growthPeriod\<rfloor>"

subsection \<open>Default records\<close>

text \<open>Glyphs of the source (avatar and icons) are written by name: the theory is ASCII.\<close>

definition getDefaultPlayer :: "string \<Rightarrow> int \<Rightarrow> Player" where
  "getDefaultPlayer username now =
     \<lparr> p_id = username, p_username = username, p_avatar = ''deciduous tree'',
       p_level = 1, p_experience = 0, p_coins = 200, p_redditGold = 0,
       p_achievements = [], p_landPlots = [],
       p_position = \<lparr> pos_x = 0, pos_y = 0, pos_z = 0 \<rparr>,
       p_lastActive = now,
       p_premiumFeatures = \<lparr> speedBoost = False, doubleXP = False, instantGrowth = False \<rparr> \<rparr>"

definition getDefaultBiome :: Biome where
  "getDefaultBiome =
     \<lparr> b_id = ''massive_world'', b_name = ''The Eternal Forest'', b_type = forest,
       b_maxPlayers = int MAX_PLAYERS, b_landPlots = [], b_players = [],
       b_environment = \<lparr> skyColor = ''#87CEEB'', groundColor = ''#90EE90'',
                          fogColor = ''#87CEEB'' \<rparr> \<rparr>"

definition getDefaultGameState :: "Player \<Rightarrow> Biome \<Rightarrow> int \<Rightarrow> GameState" where
  "getDefaultGameState player biome now =
     \<lparr> gs_player = player, gs_currentBiome = biome, gs_trees = [],
       gs_resources = \<lparr> r_seeds = 5, r_water = 10, r_fertilizer = 0, r_coins = p_coins player \<rparr>,
       gs_lastPlayed = now \<rparr>"

subsection \<open>Achievement evaluator\<close>

definition ACHIEVEMENT :: "string \<Rightarrow> string \<Rightarrow> string \<Rightarrow> string \<Rightarrow> AchievementCategory \<Rightarrow> Achievement" where
  "ACHIEVEMENT i n d ic c =
     \<lparr> a_id = i, a_name = n, a_description = d, a_icon = ic, a_unlockedAt = 0, a_category = c \<rparr>"

definition ACHIEVEMENTS_first_tree :: Achievement where
  "ACHIEVEMENTS_first_tree =
     ACHIEVEMENT ''first_tree'' ''First Steps'' ''Plant your first tree'' ''seedling'' planting"

definition ACHIEVEMENTS_tree_master :: Achievement where
  "ACHIEVEMENTS_tree_master =
     ACHIEVEMENT ''tree_master'' ''Tree Master'' ''Plant 50 trees'' ''deciduous tree'' planting"

definition ACHIEVEMENTS_harvester :: Achievement where
  "ACHIEVEMENTS_harvester =
     ACHIEVEMENT ''harvester'' ''Harvester'' ''Harvest 25 trees'' ''ear of rice'' harvesting"

definition ACHIEVEMENTS_landowner :: Achievement where
  "ACHIEVEMENTS_landowner =
     ACHIEVEMENT ''landowner'' ''Landowner'' ''Own 5 land plots'' ''house with garden'' economy"

definition ACHIEVEMENTS_explorer :: Achievement where
  "ACHIEVEMENTS_explorer =
     ACHIEVEMENT ''explorer'' ''Explorer'' ''Visit all biome types'' ''world map'' exploration"

definition ACHIEVEMENTS_social_butterfly :: Achievement where
  "ACHIEVEMENTS_social_butterfly =
     ACHIEVEMENT ''social_butterfly'' ''Social Butterfly'' ''Meet 10 other players'' ''butterfly'' social"

definition ACHIEVEMENTS_millionaire :: Achievement where
  "ACHIEVEMENTS_millionaire =
     ACHIEVEMENT ''millionaire'' ''Millionaire'' ''Accumulate 10,000 coins'' ''money bag'' economy"

definition ACHIEVEMENTS_master_gardener :: Achievement where
  "ACHIEVEMENTS_master_gardener =
     ACHIEVEMENT ''master_gardener'' ''Master Gardener'' ''Reach level 25'' ''farmer'' mastery"

text \<open>
  \<open>!player.achievements.find(a => a.id === i)\<close>: no held achievement has the id \<open>i\<close>.
\<close>

definition notHeld :: "Player \<Rightarrow> string \<Rightarrow> bool" where
  "notHeld player i = (find (\<lambda>a. a_id a = i) (p_achievements player) = None)"

text \<open>
  \<open>count && count >= n\<close> for the optional parameter \<open>count\<close>: \<open>undefined\<close> and \<open>0\<close> are
  falsy.
\<close>

definition countAtLeast :: "int option \<Rightarrow> int \<Rightarrow> bool" where
  "countAtLeast count n = (case count of None \<Rightarrow> False | Some c \<Rightarrow> c \<noteq> 0 \<and> c \<ge> n)"

definition checkAchievements :: "Player \<Rightarrow> string \<Rightarrow> int option \<Rightarrow> int \<Rightarrow> Achievement list" where
  "checkAchievements player action count now =
     (if action = ''plant_tree'' \<and> notHeld player ''first_tree''
      then [ACHIEVEMENTS_first_tree\<lparr>a_unlockedAt := now\<rparr>] else [])
     @ (if action = ''plant_tree'' \<and> countAtLeast count 50 \<and> notHeld player ''tree_master''
        then [ACHIEVEMENTS_tree_master\<lparr>a_unlockedAt := now\<rparr>] else [])
     @ (if action = ''harvest_tree'' \<and> countAtLeast count 25 \<and> notHeld player ''harvester''
        then [ACHIEVEMENTS_harvester\<lparr>a_unlockedAt := now\<rparr>] else [])
     @ (if action = ''buy_land'' \<and> length (p_landPlots player) \<ge> 5 \<and> notHeld player ''landowner''
        then [ACHIEVEMENTS_landowner\<lparr>a_unlockedAt := now\<rparr>] else [])
     @ (if p_coins player \<ge> 10000 \<and> notHeld player ''millionaire''
        then [ACHIEVEMENTS_millionaire\<lparr>a_unlockedAt := now\<rparr>] else [])
     @ (if p_level player \<ge> 25 \<and> notHeld player ''master_gardener''
        then [ACHIEVEMENTS_master_gardener\<lparr>a_unlockedAt := now\<rparr>] else [])"

subsection \<open>Proximity query\<close>

text \<open>
  \<open>Math.sqrt(Math.pow(dx, 2) + Math.pow(dz, 2))\<close> in double arithmetic: the two
  differences, the two squares, the sum and the square root are each rounded.
  \<open>Math.pow(d, 2)\<close> is taken to be the rounded product \<open>d * d\<close>. \<open>None\<close> is \<open>Infinity\<close>:
  an operation that overflows makes every later result infinite, and no \<open>NaN\<close> arises
  from finite coordinates.
\<close>

definition computedDistance :: "Player \<Rightarrow> Player \<Rightarrow> real option" where
  "computedDistance p player =
     (case dval (pos_x (p_position p) - pos_x (p_position player)) of None \<Rightarrow> None
      | Some dx \<Rightarrow>
     (case dval (dx * dx) of None \<Rightarrow> None
      | Some sx \<Rightarrow>
     (case dval (pos_z (p_position p) - pos_z (p_position player)) of None \<Rightarrow> None
      | Some dz \<Rightarrow>
     (case dval (dz * dz) of None \<Rightarrow> None
      | Some sz \<Rightarrow>
     (case dval (sx + sz) of None \<Rightarrow> None
      | Some s \<Rightarrow> dval (sqrt s))))))"

text \<open>The radius is a finite number, so \<open>Infinity <= radius\<close> is false.\<close>

definition getNearbyPlayers :: "Player \<Rightarrow> Biome \<Rightarrow> real \<Rightarrow> Player list" where
  "getNearbyPlayers player biome radius =
     filter (\<lambda>p. if p_id p = p_id player then False
                 else (case computedDistance p player of
                         None \<Rightarrow> False
                       | Some distance \<Rightarrow> distance \<le> radius))
       (b_players biome)"





subsection \<open>The key-value store and the process state\<close>

text \<open>
  The world is the three families of records of the key-value store (\<open>player:<id>\<close>,
  \<open>biome:<id>\<close>, \<open>gameState:<playerId>\<close>; a record is stored as JSON and read back
  unchanged) together with the two module-level variables of the server process.
\<close>

record World =
  redis_player :: "string \<rightharpoonup> Player"
  redis_biome :: "string \<rightharpoonup> Biome"
  redis_gameState :: "string \<rightharpoonup> GameState"
  w_claimedPlots :: "(nat \<times> nat) set"
  w_chatMessages :: "ChatMessage list"

definition getPlayer :: "string \<Rightarrow> World \<Rightarrow> Player option" where
  "getPlayer playerId w = redis_player w playerId"

definition savePlayer :: "Player \<Rightarrow> World \<Rightarrow> World" where
  "savePlayer player w = w\<lparr>redis_player := (redis_player w)(p_id player \<mapsto> player)\<rparr>"

definition getBiome :: "string \<Rightarrow> World \<Rightarrow> Biome option" where
  "getBiome biomeId w = redis_biome w biomeId"

definition saveBiome :: "Biome \<Rightarrow> World \<Rightarrow> World" where
  "saveBiome biome w = w\<lparr>redis_biome := (redis_biome w)(b_id biome \<mapsto> biome)\<rparr>"

definition getGameState :: "string \<Rightarrow> World \<Rightarrow> GameState option" where
  "getGameState playerId w = redis_gameState w playerId"

text \<open>
  \<open>saveGameState\<close> stamps \<open>lastPlayed\<close> on the object it is given before writing it, so
  it returns the stamped state together with the new world.
\<close>

definition saveGameState :: "GameState \<Rightarrow> int \<Rightarrow> World \<Rightarrow> GameState \<times> World" where
  "saveGameState gameState now w =
     (let stamped = gameState\<lparr>gs_lastPlayed := now\<rparr>
      in (stamped,
          w\<lparr>redis_gameState := (redis_gameState w)(p_id (gs_player stamped) \<mapsto> stamped)\<rparr>))"

subsection \<open>Starting land\<close>

text \<open>
  \<open>allocateStartingLand\<close> mutates the player, the biome and the claimed set, or throws.
  The model returns the error message, or the three values after the call.
\<close>

definition allocateStartingLand ::
  "Player \<Rightarrow> Biome \<Rightarrow> int \<Rightarrow> string \<Rightarrow> (nat \<times> nat) set
     \<Rightarrow> string + (Player \<times> Biome \<times> (nat \<times> nat) set)" where
  "allocateStartingLand player biome now newLandPlotId claimed =
     (case findAvailablePlot claimed of
        None \<Rightarrow> Inl ''No available plots in the world''
      | Some (gridX, gridZ) \<Rightarrow>
          (let coords = getPlotWorldCoordinates gridX gridZ;
               (ok, claimed') = claimPlot gridX gridZ claimed
           in if \<not> ok then Inl ''Failed to claim plot''
              else
                (let landPlot = \<lparr> lp_id = newLandPlotId, lp_x = centerX coords,
                                   lp_z = centerZ coords, lp_ownerId = p_id player,
                                   lp_biomeType = b_type biome, lp_trees = [],
                                   lp_purchasedAt = now, lp_price = 0 \<rparr>
                 in Inr (player\<lparr>p_landPlots := p_landPlots player @ [lp_id landPlot],
                                p_position := \<lparr> pos_x = centerX coords, pos_y = 0,
                                                 pos_z = centerZ coords \<rparr>\<rparr>,
                         biome\<lparr>b_landPlots := b_landPlots biome @ [landPlot]\<rparr>,
                         claimed'))))"

subsection \<open>Requests and responses\<close>

text \<open>
  Response messages built from a template keep the values the template is filled with.
\<close>

datatype Message =
    Text string
  | Planted TreeType
  | Watered TreeType
  | Bought int TreeType
  | PurchasedLand int

text \<open>
  A response is either the error body with its HTTP status, or the JSON body of the
  action. The echoed \<open>postId\<close> is left out. The rewards of a harvest are the three
  numbers \<open>coins\<close>, \<open>seeds\<close>, \<open>experience\<close>. \<open>OutsideModel\<close> is no response of the
  program: it marks a request whose numbers leave the finite doubles (a quantity that is
  no double, a balance that becomes \<open>Infinity\<close>), which the model does not follow; the
  world is left as it was.
\<close>

datatype Response =
    ErrorResponse nat string
  | InitResponse GameState string "Player list"
  | PlantTreeResponse GameState bool Message "Achievement list option"
  | BuyLandResponse GameState bool Message "LandPlot option" "Achievement list option"
  | MovePlayerResponse GameState Position
  | WaterTreeResponse GameState bool Message
  | HarvestTreeResponse GameState int int int "Achievement list option"
  | BuySeedsResponse GameState bool Message
  | OutsideModel

text \<open>\<open>!postId\<close>, \<open>!username\<close>: an absent or empty string is falsy.\<close>

definition falsy :: "string option \<Rightarrow> bool" where
  "falsy s = (case s of None \<Rightarrow> True | Some v \<Rightarrow> v = [])"

subsection \<open>The action handlers\<close>

text \<open>
  Each handler takes what the request carries (\<open>postId\<close> of the context, the body
  fields, with \<open>playerId\<close> already defaulted to the empty string), the clock and the
  identifier it would generate, and the world; it returns the response and the world
  after the request. Objects of the source are shared: \<open>player\<close> is
  \<open>gameState.player\<close> and \<open>biome\<close> is \<open>gameState.currentBiome\<close>, so a field written
  through one name is written in the game state that is saved.
\<close>

definition init_finish :: "string \<Rightarrow> Player \<Rightarrow> Biome \<Rightarrow> int \<Rightarrow> World \<Rightarrow> Response \<times> World" where
  "init_finish username player biome now w =
     (let (gameState, w') =
            (case getGameState (p_id player) w of
               None \<Rightarrow> saveGameState (getDefaultGameState player biome now) now w
             | Some stored \<Rightarrow>
                 saveGameState (stored\<lparr>gs_player := player, gs_currentBiome := biome\<rparr>) now w);
          nearbyPlayers = getNearbyPlayers player biome 20
      in (InitResponse gameState username nearbyPlayers, w'))"

text \<open>
  In \<open>/api/init\<close> a new player is pushed on the roster before the starting land is
  allocated; the roster holds the same object, so the stored roster entry carries the
  plot and the position that the allocation writes.
\<close>

definition api_init :: "string option \<Rightarrow> int \<Rightarrow> string \<Rightarrow> World \<Rightarrow> Response \<times> World" where
  "api_init currentUsername now newLandPlotId w =
     (let username = (case currentUsername of
                        None \<Rightarrow> ''dev_player''
                      | Some u \<Rightarrow> if u = [] then ''dev_player'' else u);
          storedBiome = getBiome ''massive_world'' w;
          biome = (case storedBiome of None \<Rightarrow> getDefaultBiome | Some b \<Rightarrow> b);
          w1 = (case storedBiome of None \<Rightarrow> saveBiome biome w | Some b \<Rightarrow> w)
      in case getPlayer username w1 of
           None \<Rightarrow>
             (case allocateStartingLand (getDefaultPlayer username now) biome now newLandPlotId
                     (w_claimedPlots w1) of
                Inl msg \<Rightarrow> (ErrorResponse 400 (''Initialization failed: '' @ msg), w1)
              | Inr (player, biomeA, claimed) \<Rightarrow>
                  (let biome' = biomeA\<lparr>b_players := b_players biomeA @ [player]\<rparr>;
                       w2 = saveBiome biome' (savePlayer player (w1\<lparr>w_claimedPlots := claimed\<rparr>))
                   in init_finish username player biome' now w2))
         | Some stored \<Rightarrow>
             (let player = stored\<lparr>p_lastActive := now\<rparr>
              in init_finish username player biome now (savePlayer player w1)))"

definition api_plant_tree ::
  "string option \<Rightarrow> string \<Rightarrow> TreeType \<Rightarrow> real \<Rightarrow> real \<Rightarrow> int \<Rightarrow> string \<Rightarrow> World
     \<Rightarrow> Response \<times> World" where
  "api_plant_tree postId playerId treeType x z now newTreeId w =
     (if falsy postId then (ErrorResponse 400 ''postId is required'', w)
      else case getGameState playerId w of
        None \<Rightarrow> (ErrorResponse 404 ''Game state not found'', w)
      | Some gameState \<Rightarrow>
          (let player = gs_player gameState;
               biome = gs_currentBiome gameState;
               onOwnLand = (\<lambda>plot. absDiffBelow (lp_x plot) x 5 \<and> absDiffBelow (lp_z plot) z 5
                                     \<and> lp_ownerId plot = p_id player)
           in case find onOwnLand (b_landPlots biome) of
                None \<Rightarrow>
                  (PlantTreeResponse gameState False
                     (Text ''You can only plant trees on your own land!'') None, w)
              | Some landPlot \<Rightarrow>
                  if length (lp_trees landPlot) \<ge> MAX_TREES_PER_PLOT
                  then (PlantTreeResponse gameState False (Text ''This land plot is full!'') None, w)
                  else if r_seeds (gs_resources gameState) \<le> 0
                  then (PlantTreeResponse gameState False (Text ''Not enough seeds!'') None, w)
                  else
                    (let newTree = \<lparr> t_id = newTreeId, t_type = treeType, t_x = x, t_y = 0,
                                      t_z = z, t_growthStage = 0, t_plantedAt = now,
                                      t_lastWatered = now, t_health = 100,
                                      t_ownerId = p_id player \<rparr>;
                         trees' = gs_trees gameState @ [newTree];
                         biome' = biome\<lparr>b_landPlots :=
                                    update_first onOwnLand
                                      (\<lambda>plot. plot\<lparr>lp_trees := lp_trees plot @ [t_id newTree]\<rparr>)
                                      (b_landPlots biome)\<rparr>;
                         resources' = (gs_resources gameState)
                                        \<lparr>r_seeds := num (r_seeds (gs_resources gameState) - 1)\<rparr>;
                         player1 = player\<lparr>p_experience := num (p_experience player + 10)\<rparr>;
                         newAchievements =
                           checkAchievements player1 ''plant_tree'' (Some (int (length trees'))) now;
                         player2 = player1\<lparr>p_achievements := p_achievements player1 @ newAchievements\<rparr>;
                         (saved, w1) =
                           saveGameState
                             (gameState\<lparr>gs_player := player2, gs_currentBiome := biome',
                                        gs_trees := trees', gs_resources := resources'\<rparr>) now w;
                         w2 = saveBiome biome' (savePlayer player2 w1)
                     in (PlantTreeResponse saved True (Planted treeType) (Some newAchievements), w2))))"

definition api_buy_land ::
  "string option \<Rightarrow> string \<Rightarrow> real \<Rightarrow> real \<Rightarrow> int \<Rightarrow> string \<Rightarrow> World \<Rightarrow> Response \<times> World" where
  "api_buy_land postId playerId x z now newLandPlotId w =
     (if falsy postId then (ErrorResponse 400 ''postId is required'', w)
      else case getGameState playerId w of
        None \<Rightarrow> (ErrorResponse 404 ''Game state not found'', w)
      | Some gameState \<Rightarrow>
          (let player = gs_player gameState;
               biome = gs_currentBiome gameState
           in case find (\<lambda>plot. absDiffBelow (lp_x plot) x 10 \<and> absDiffBelow (lp_z plot) z 10)
                     (b_landPlots biome) of
                Some existingPlot \<Rightarrow>
                  (BuyLandResponse gameState False (Text ''This land is already owned!'') None None, w)
              | None \<Rightarrow>
                  if p_coins player < LAND_PLOT_COST
                  then (BuyLandResponse gameState False (Text ''Not enough coins!'') None None, w)
                  else
                    (let newLandPlot = \<lparr> lp_id = newLandPlotId, lp_x = x, lp_z = z,
                                          lp_ownerId = p_id player, lp_biomeType = b_type biome,
                                          lp_trees = [], lp_purchasedAt = now,
                                          lp_price = LAND_PLOT_COST \<rparr>;
                         biome' = biome\<lparr>b_landPlots := b_landPlots biome @ [newLandPlot]\<rparr>;
                         player1 = player\<lparr>p_landPlots := p_landPlots player @ [lp_id newLandPlot],
                                         p_coins := num (p_coins player - LAND_PLOT_COST)\<rparr>;
                         resources' = (gs_resources gameState)\<lparr>r_coins := p_coins player1\<rparr>;
                         newAchievements =
                           checkAchievements player1 ''buy_land''
                             (Some (int (length (p_landPlots player1)))) now;
                         player2 = player1\<lparr>p_achievements := p_achievements player1 @ newAchievements\<rparr>;
                         (saved, w1) =
                           saveGameState
                             (gameState\<lparr>gs_player := player2, gs_currentBiome := biome',
                                        gs_resources := resources'\<rparr>) now w;
                         w2 = saveBiome biome' (savePlayer player2 w1)
                     in (BuyLandResponse saved True (PurchasedLand LAND_PLOT_COST)
                           (Some newLandPlot) (Some newAchievements), w2))))"

definition api_move_player ::
  "string \<Rightarrow> real \<Rightarrow> real \<Rightarrow> real \<Rightarrow> int \<Rightarrow> World \<Rightarrow> Response \<times> World" where
  "api_move_player playerId x y z now w =
     (case getGameState playerId w of
        None \<Rightarrow> (ErrorResponse 404 ''Game state not found'', w)
      | Some gameState \<Rightarrow>
          (let position = \<lparr> pos_x = x, pos_y = y, pos_z = z \<rparr>;
               player = (gs_player gameState)\<lparr>p_position := position\<rparr>;
               biome = gs_currentBiome gameState;
               biome' = (case findIndex (\<lambda>p. p_id p = p_id player) (b_players biome) of
                           None \<Rightarrow> biome
                         | Some biomePlayerIndex \<Rightarrow>
                             biome\<lparr>b_players := (b_players biome)[biomePlayerIndex := player]\<rparr>);
               (saved, w1) =
                 saveGameState (gameState\<lparr>gs_player := player, gs_currentBiome := biome'\<rparr>) now w;
               w2 = saveBiome biome' (savePlayer player w1)
           in (MovePlayerResponse saved position, w2)))"

definition api_water_tree ::
  "string option \<Rightarrow> string \<Rightarrow> string \<Rightarrow> int \<Rightarrow> World \<Rightarrow> Response \<times> World" where
  "api_water_tree postId playerId treeId now w =
     (if falsy postId then (ErrorResponse 400 ''postId is required'', w)
      else case getGameState playerId w of
        None \<Rightarrow> (ErrorResponse 404 ''Game state not found'', w)
      | Some gameState \<Rightarrow>
          if r_water (gs_resources gameState) \<le> 0
          then (WaterTreeResponse gameState False (Text ''Not enough water!''), w)
          else case find (\<lambda>t. t_id t = treeId) (gs_trees gameState) of
                 None \<Rightarrow> (WaterTreeResponse gameState False (Text ''Tree not found!''), w)
               | Some tree \<Rightarrow>
                   (let trees' = update_first (\<lambda>t. t_id t = treeId)
                                   (\<lambda>t. t\<lparr>t_lastWatered := now,
                                           t_health := min 100 (num (t_health t + 20))\<rparr>)
                                   (gs_trees gameState);
                        resources' = (gs_resources gameState)
                                       \<lparr>r_water := num (r_water (gs_resources gameState) - 1)\<rparr>;
                        player = (gs_player gameState)
                                   \<lparr>p_experience := num (p_experience (gs_player gameState) + 5)\<rparr>;
                        (saved, w1) =
                          saveGameState
                            (gameState\<lparr>gs_player := player, gs_trees := trees',
                                       gs_resources := resources'\<rparr>) now w
                    in (WaterTreeResponse saved True (Watered (t_type tree)), w1)))"

fun baseReward :: "TreeType \<Rightarrow> int" where
  "baseReward oak = 20"
| "baseReward pine = 15"
| "baseReward cherry = 25"
| "baseReward maple = 18"
| "baseReward cedar = 22"

text \<open>
  \<open>/api/harvest-tree\<close> reads the stored field \<open>tree.growthStage\<close>. \<open>random\<close> is the value
  of \<open>Math.random()\<close>, a number in \<open>[0, 1)\<close>. The sums of this handler and of the three
  before it add a small number to a stored one and are rounded by \<open>num\<close>: such a sum of
  finite doubles does not overflow. The rewards are rounded by \<open>fl\<close>: the health of a tree
  is at most 100 wherever the server has written it, and the products stay small.
\<close>

definition api_harvest_tree ::
  "string option \<Rightarrow> string \<Rightarrow> string \<Rightarrow> int \<Rightarrow> real \<Rightarrow> World \<Rightarrow> Response \<times> World" where
  "api_harvest_tree postId playerId treeId now random w =
     (if falsy postId then (ErrorResponse 400 ''postId is required'', w)
      else case getGameState playerId w of
        None \<Rightarrow> (ErrorResponse 404 ''Game state not found'', w)
      | Some gameState \<Rightarrow>
          (case findIndex (\<lambda>t. t_id t = treeId) (gs_trees gameState) of
             None \<Rightarrow> (ErrorResponse 404 ''Tree not found!'', w)
           | Some treeIndex \<Rightarrow>
               (let tree = gs_trees gameState ! treeIndex
                in if t_growthStage tree < 5
                   then (HarvestTreeResponse gameState 0 0 0 None, w)
                   else
                     (let coins = \<lfloor>fl (real_of_int (baseReward (t_type tree))
                                         * fl (real_of_int (t_health tree) / 100))\<rfloor>;
                          seeds = \<lfloor>fl (random * 3)\<rfloor> + 1;
                          experience = \<lfloor>fl (real_of_int coins * (1 / 2))\<rfloor>;
                          player0 = gs_player gameState;
                          player1 = player0\<lparr>p_coins := num (p_coins player0 + coins),
                                            p_experience := num (p_experience player0 + experience)\<rparr>;
                          resources' = (gs_resources gameState)
                                         \<lparr>r_coins := p_coins player1,
                                          r_seeds := num (r_seeds (gs_resources gameState) + seeds)\<rparr>;
                          trees' = splice1 treeIndex (gs_trees gameState);
                          newAchievements =
                            checkAchievements player1 ''harvest_tree'' (Some (int (length trees'))) now;
                          player2 = player1\<lparr>p_achievements := p_achievements player1 @ newAchievements\<rparr>;
                          (saved, w1) =
                            saveGameState
                              (gameState\<lparr>gs_player := player2, gs_trees := trees',
                                         gs_resources := resources'\<rparr>) now w;
                          w2 = savePlayer player2 w1
                      in (HarvestTreeResponse saved coins seeds experience (Some newAchievements),
                          w2)))))"

text \<open>
  \<open>/api/buy-seeds\<close>. \<open>quantity\<close> is optional in the request body and defaults to \<open>1\<close>;
  it is not validated. The product \<open>SEED_COST * quantity\<close>, the new balance and the new
  seed count are rounded. A product that overflows to \<open>Infinity\<close> exceeds every balance,
  so the purchase is refused.

  The handler writes twice, the game state and then the Player record, inside one
  \<open>try\<close> block. \<open>savePlayerThrows\<close> selects the run in which the store rejects the second
  write: the game state is written, \<open>savePlayer\<close> throws, and the \<open>catch\<close> block answers
  with status 500. \<open>api_buy_seeds\<close> is the run in which both writes succeed.
\<close>

definition buy_seeds_run ::
  "bool \<Rightarrow> string option \<Rightarrow> string \<Rightarrow> TreeType \<Rightarrow> int option \<Rightarrow> int \<Rightarrow> World
     \<Rightarrow> Response \<times> World" where
  "buy_seeds_run savePlayerThrows postId playerId treeType quantityField now w =
     (if falsy postId then (ErrorResponse 400 ''postId is required'', w)
      else
        (let quantity = (case quantityField of None \<Rightarrow> 1 | Some q \<Rightarrow> q)
         in case getGameState playerId w of
              None \<Rightarrow> (ErrorResponse 404 ''Game state not found'', w)
            | Some gameState \<Rightarrow>
                if \<not> isNumber quantity then (OutsideModel, w)
                else
                  (case dint (SEED_COST * quantity) of
                     None \<Rightarrow>
                       if 0 < quantity
                       then (BuySeedsResponse gameState False (Text ''Not enough coins!''), w)
                       else (OutsideModel, w)
                   | Some totalCost \<Rightarrow>
                       if p_coins (gs_player gameState) < totalCost
                       then (BuySeedsResponse gameState False (Text ''Not enough coins!''), w)
                       else
                         (case (dint (p_coins (gs_player gameState) - totalCost),
                                dint (r_seeds (gs_resources gameState) + quantity)) of
                            (Some coins', Some seeds') \<Rightarrow>
                              (let player = (gs_player gameState)\<lparr>p_coins := coins'\<rparr>;
                                   resources' = (gs_resources gameState)
                                                  \<lparr>r_coins := p_coins player, r_seeds := seeds'\<rparr>;
                                   (saved, w1) =
                                     saveGameState
                                       (gameState\<lparr>gs_player := player,
                                                  gs_resources := resources'\<rparr>) now w
                               in if savePlayerThrows
                                  then (ErrorResponse 500 ''Failed to buy seeds'', w1)
                                  else (BuySeedsResponse saved True (Bought quantity treeType),
                                        savePlayer player w1))
                          | _ \<Rightarrow> (OutsideModel, w)))))"

definition api_buy_seeds ::
  "string option \<Rightarrow> string \<Rightarrow> TreeType \<Rightarrow> int option \<Rightarrow> int \<Rightarrow> World \<Rightarrow> Response \<times> World" where
  "api_buy_seeds = buy_seeds_run False"

text \<open>
  \<open>/api/chat-messages\<close> parses the query parameter: \<open>parseInt(limit) || 20\<close>. \<open>None\<close> is
  an absent or non-numeric parameter (\<open>NaN\<close>); \<open>NaN\<close> and \<open>0\<close> are falsy.
\<close>

definition chatLimit :: "int option \<Rightarrow> int" where
  "chatLimit parsed = (case parsed of None \<Rightarrow> 20 | Some n \<Rightarrow> if n = 0 then 20 else n)"

definition api_chat_messages :: "int option \<Rightarrow> World \<Rightarrow> ChatMessage list" where
  "api_chat_messages parsed w = getRecentChatMessages (chatLimit parsed) (w_chatMessages w)"

subsection \<open>Actions of the coordinator\<close>

text \<open>
  The seven actions that load, change and persist a game state, with the fields of their
  requests. \<open>perform\<close> dispatches an action to its handler; \<open>postId\<close>, the clock, the
  generated identifier and the random number belong to the request's environment.
\<close>

datatype Action =
    Init "string option"
  | PlantTree string TreeType real real
  | BuyLand string real real
  | MovePlayer string real real real
  | WaterTree string string
  | HarvestTree string string
  | BuySeeds string TreeType "int option"

fun perform :: "string option \<Rightarrow> int \<Rightarrow> string \<Rightarrow> real \<Rightarrow> Action \<Rightarrow> World \<Rightarrow> Response \<times> World" where
  "perform postId now newId random (Init currentUsername) w = api_init currentUsername now newId w"
| "perform postId now newId random (PlantTree playerId treeType x z) w =
     api_plant_tree postId playerId treeType x z now newId w"
| "perform postId now newId random (BuyLand playerId x z) w =
     api_buy_land postId playerId x z now newId w"
| "perform postId now newId random (MovePlayer playerId x y z) w =
     api_move_player playerId x y z now w"
| "perform postId now newId random (WaterTree playerId treeId) w =
     api_water_tree postId playerId treeId now w"
| "perform postId now newId random (HarvestTree playerId treeId) w =
     api_harvest_tree postId playerId treeId now random w"
| "perform postId now newId random (BuySeeds playerId treeType quantityField) w =
     api_buy_seeds postId playerId treeType quantityField now w"

text \<open>The store key an action works on: the user name of an init, the \<open>playerId\<close> otherwise.\<close>

fun actor :: "Action \<Rightarrow> string" where
  "actor (Init currentUsername) =
     (case currentUsername of None \<Rightarrow> ''dev_player''
      | Some u \<Rightarrow> if u = [] then ''dev_player'' else u)"
| "actor (PlantTree playerId treeType x z) = playerId"
| "actor (BuyLand playerId x z) = playerId"
| "actor (MovePlayer playerId x y z) = playerId"
| "actor (WaterTree playerId treeId) = playerId"
| "actor (HarvestTree playerId treeId) = playerId"
| "actor (BuySeeds playerId treeType quantityField) = playerId"

text \<open>The game state a response carries, and its \<open>success\<close> flag where it has one.\<close>

fun responseGameState :: "Response \<Rightarrow> GameState option" where
  "responseGameState (ErrorResponse status msg) = None"
| "responseGameState (InitResponse gs username nearby) = Some gs"
| "responseGameState (PlantTreeResponse gs success msg achievements) = Some gs"
| "responseGameState (BuyLandResponse gs success msg plot achievements) = Some gs"
| "responseGameState (MovePlayerResponse gs position) = Some gs"
| "responseGameState (WaterTreeResponse gs success msg) = Some gs"
| "responseGameState (HarvestTreeResponse gs coins seeds experience achievements) = Some gs"
| "responseGameState (BuySeedsResponse gs success msg) = Some gs"
| "responseGameState OutsideModel = None"

fun responseSuccess :: "Response \<Rightarrow> bool" where
  "responseSuccess (PlantTreeResponse gs success msg achievements) = success"
| "responseSuccess (BuyLandResponse gs success msg plot achievements) = success"
| "responseSuccess (WaterTreeResponse gs success msg) = success"
| "responseSuccess (BuySeedsResponse gs success msg) = success"
| "responseSuccess other = False"

subsection \<open>Predicates of the properties\<close>

text \<open>The wallet's copy of the coins equals the player's balance.\<close>

definition coinsAgree :: "GameState \<Rightarrow> bool" where
  "coinsAgree gs = (r_coins (gs_resources gs) = p_coins (gs_player gs))"

definition responseCoinsAgree :: "Response \<Rightarrow> bool" where
  "responseCoinsAgree resp =
     (case responseGameState resp of None \<Rightarrow> True | Some gs \<Rightarrow> coinsAgree gs)"

text \<open>
  The game state an action loads from the store, if there is one: the one stored under
  the \<open>playerId\<close> of the request, and for init the one stored under the id of the Player
  record that init reads (\<open>initPlayer\<close>: the stored record, or the default record of a
  new player).
\<close>

definition initPlayer :: "string option \<Rightarrow> int \<Rightarrow> World \<Rightarrow> Player" where
  "initPlayer currentUsername now w =
     (case getPlayer (actor (Init currentUsername)) w of
        None \<Rightarrow> getDefaultPlayer (actor (Init currentUsername)) now
      | Some stored \<Rightarrow> stored)"

fun loadedGameState :: "int \<Rightarrow> Action \<Rightarrow> World \<Rightarrow> GameState option" where
  "loadedGameState now (Init currentUsername) w =
     getGameState (p_id (initPlayer currentUsername now w)) w"
| "loadedGameState now a w = getGameState (actor a) w"

text \<open>The hypothesis of the coin property: the loaded game state has equal coins.\<close>

definition loadedCoinsAgree :: "int \<Rightarrow> Action \<Rightarrow> World \<Rightarrow> bool" where
  "loadedCoinsAgree now a w =
     (case loadedGameState now a w of None \<Rightarrow> True | Some gs \<Rightarrow> coinsAgree gs)"

text \<open>
  What init needs besides: the Player record it reads carries the balance of the player
  in the game state it loads. The other actions need nothing more.
\<close>

fun initRecordAgrees :: "int \<Rightarrow> Action \<Rightarrow> World \<Rightarrow> bool" where
  "initRecordAgrees now (Init currentUsername) w =
     (case loadedGameState now (Init currentUsername) w of
        None \<Rightarrow> True
      | Some gs \<Rightarrow> p_coins (gs_player gs) = p_coins (initPlayer currentUsername now w))"
| "initRecordAgrees now a w = True"

text \<open>
  Every game state that an action has written has equal coins: a stored game state of
  the world after the action is the one stored before, or it has equal coins.
\<close>

definition writtenCoinsAgree :: "World \<Rightarrow> World \<Rightarrow> bool" where
  "writtenCoinsAgree w w' =
     (\<forall>k. redis_gameState w' k = redis_gameState w k
          \<or> (\<exists>gs. redis_gameState w' k = Some gs \<and> coinsAgree gs))"

text \<open>A harvest is accepted when the response carries the achievements of a harvest.\<close>

fun harvestAccepted :: "Response \<Rightarrow> bool" where
  "harvestAccepted (HarvestTreeResponse gs coins seeds experience (Some achievements)) = True"
| "harvestAccepted other = False"

text \<open>Centres of the land plots of the shared biome, in roster order.\<close>

definition plotCentres :: "World \<Rightarrow> (real \<times> real) list" where
  "plotCentres w =
     (case redis_biome w ''massive_world'' of
        None \<Rightarrow> []
      | Some biome \<Rightarrow> map (\<lambda>plot. (lp_x plot, lp_z plot)) (b_landPlots biome))"

definition plotOwners :: "World \<Rightarrow> string list" where
  "plotOwners w =
     (case redis_biome w ''massive_world'' of
        None \<Rightarrow> []
      | Some biome \<Rightarrow> map lp_ownerId (b_landPlots biome))"

subsection \<open>Concrete inputs of the examples\<close>

definition emptyWorld :: World where
  "emptyWorld = \<lparr> redis_player = Map.empty, redis_biome = Map.empty,
                  redis_gameState = Map.empty, w_claimedPlots = {}, w_chatMessages = [] \<rparr>"

text \<open>A tree planted at time 0 and watered at time 40000.\<close>

definition wateredTree :: Tree where
  "wateredTree = \<lparr> t_id = ''tree_1'', t_type = oak, t_x = 0, t_y = 0, t_z = 0,
                   t_growthStage = 0, t_plantedAt = 0, t_lastWatered = 40000,
                   t_health = 100, t_ownerId = ''alice'' \<rparr>"

text \<open>The first column of the grid: the 200 cells with \<open>gridX = 0\<close>.\<close>

definition firstColumn :: "(nat \<times> nat) set" where
  "firstColumn = Pair 0 ` {0..<GRID_HEIGHT}"

definition helloMessage :: ChatMessage where
  "helloMessage = \<lparr> cm_id = ''chat_1'', cm_playerId = ''alice'', cm_username = ''alice'',
                     cm_message = ''hello'', cm_timestamp = 1, cm_system = False \<rparr>"

text \<open>The default record of a player: 200 coins, at the origin.\<close>

definition alice :: Player where
  "alice = getDefaultPlayer ''alice'' 1000"

text \<open>
  Three requests on the empty world: \<open>alice\<close> joins, buys land at the centre of grid
  cell \<open>(0, 1)\<close>, then \<open>bob\<close> joins.
\<close>

definition afterAliceJoins :: World where
  "afterAliceJoins = snd (api_init (Some ''alice'') 1000 ''land_1'' emptyWorld)"

definition afterAliceBuys :: World where
  "afterAliceBuys =
     snd (api_buy_land (Some ''post_1'') ''alice'' (- 995) (- 1970) 2000 ''land_2'' afterAliceJoins)"

definition afterBobJoins :: World where
  "afterBobJoins = snd (api_init (Some ''bob'') 3000 ''land_3'' afterAliceBuys)"

text \<open>The records the three requests leave in the store.\<close>

definition plot1 :: LandPlot where
  "plot1 = \<lparr> lp_id = ''land_1'', lp_x = - 995, lp_z = - 1990, lp_ownerId = ''alice'',
              lp_biomeType = forest, lp_trees = [], lp_purchasedAt = 1000, lp_price = 0 \<rparr>"

definition plot2 :: LandPlot where
  "plot2 = \<lparr> lp_id = ''land_2'', lp_x = - 995, lp_z = - 1970, lp_ownerId = ''alice'',
              lp_biomeType = forest, lp_trees = [], lp_purchasedAt = 2000, lp_price = 100 \<rparr>"

definition plot3 :: LandPlot where
  "plot3 = \<lparr> lp_id = ''land_3'', lp_x = - 995, lp_z = - 1970, lp_ownerId = ''bob'',
              lp_biomeType = forest, lp_trees = [], lp_purchasedAt = 3000, lp_price = 0 \<rparr>"

definition alice1 :: Player where
  "alice1 = alice\<lparr>p_landPlots := [''land_1''],
                  p_position := \<lparr> pos_x = - 995, pos_y = 0, pos_z = - 1990 \<rparr>\<rparr>"

definition alice2 :: Player where
  "alice2 = alice1\<lparr>p_landPlots := [''land_1'', ''land_2''], p_coins := 100\<rparr>"

definition bob3 :: Player where
  "bob3 = (getDefaultPlayer ''bob'' 3000)
            \<lparr>p_landPlots := [''land_3''],
             p_position := \<lparr> pos_x = - 995, pos_y = 0, pos_z = - 1970 \<rparr>\<rparr>"

definition biome1 :: Biome where
  "biome1 = getDefaultBiome\<lparr>b_landPlots := [plot1], b_players := [alice1]\<rparr>"

definition biome2 :: Biome where
  "biome2 = biome1\<lparr>b_landPlots := [plot1, plot2]\<rparr>"

definition biome3 :: Biome where
  "biome3 = biome2\<lparr>b_landPlots := [plot1, plot2, plot3], b_players := [alice1, bob3]\<rparr>"

definition state1 :: GameState where
  "state1 = getDefaultGameState alice1 biome1 1000"

definition state2 :: GameState where
  "state2 = state1\<lparr>gs_player := alice2, gs_currentBiome := biome2,
                    gs_resources := (gs_resources state1)\<lparr>r_coins := 100\<rparr>,
                    gs_lastPlayed := 2000\<rparr>"

text \<open>
  After \<open>alice\<close> has joined: a purchase of five seeds whose second write fails, and the
  game state it leaves in the store.
\<close>

definition afterFailedWrite :: World where
  "afterFailedWrite =
     snd (buy_seeds_run True (Some ''post_1'') ''alice'' oak (Some 5) 1500 afterAliceJoins)"

definition stateFailedWrite :: GameState where
  "stateFailedWrite =
     state1\<lparr>gs_player := alice1\<lparr>p_coins := 150\<rparr>,
            gs_resources := (gs_resources state1)\<lparr>r_coins := 150, r_seeds := 10\<rparr>,
            gs_lastPlayed := 1500\<rparr>"











subsection \<open>Worlds the server can reach\<close>

text \<open>
  The worlds that a sequence of requests produces from the empty store, each request run
  to completion before the next one starts: the seven actions with every store call
  succeeding, and the seed purchase whose second write fails.
\<close>

inductive reachable :: "World \<Rightarrow> bool" where
  start: "reachable emptyWorld"
| step: "reachable w \<Longrightarrow> reachable (snd (perform postId now newId random a w))"
| failedWrite:
    "reachable w \<Longrightarrow>
       reachable (snd (buy_seeds_run True postId playerId treeType quantityField now w))"

text \<open>
  What the server keeps true of the records of a player: they are stored under the
  player's id, balances are not negative, and a tree keeps the stored stage 0 it is
  planted with and a health that is not negative.
\<close>

definition asPlanted :: "Tree \<Rightarrow> bool" where
  "asPlanted t = (t_growthStage t = 0 \<and> 0 \<le> t_health t)"

definition soundState :: "GameState \<Rightarrow> bool" where
  "soundState gs = (0 \<le> p_coins (gs_player gs) \<and> list_all asPlanted (gs_trees gs))"

definition soundRecords :: "World \<Rightarrow> string \<Rightarrow> bool" where
  "soundRecords w k =
     ((case redis_player w k of None \<Rightarrow> True | Some p \<Rightarrow> p_id p = k \<and> 0 \<le> p_coins p)
      \<and> (case redis_gameState w k of
           None \<Rightarrow> True
         | Some gs \<Rightarrow> p_id (gs_player gs) = k \<and> soundState gs))"

text \<open>
  The worlds produced without a failing write, and what holds of the records of a player
  in them besides: the stored game state has equal coins, and the Player record carries
  the same balance.
\<close>

inductive reachableUnfailing :: "World \<Rightarrow> bool" where
  start: "reachableUnfailing emptyWorld"
| step: "reachableUnfailing w \<Longrightarrow> reachableUnfailing (snd (perform postId now newId random a w))"

definition recordsPaired :: "World \<Rightarrow> string \<Rightarrow> bool" where
  "recordsPaired w k =
     (case redis_gameState w k of
        None \<Rightarrow> True
      | Some gs \<Rightarrow> coinsAgree gs
                  \<and> (case redis_player w k of
                        None \<Rightarrow> False
                      | Some p \<Rightarrow> p_coins p = p_coins (gs_player gs)))"

subsection \<open>What a handler leaves in the store\<close>

text \<open>
  Summaries for the proofs. A handler other than init, called with \<open>playerId = k\<close>,
  either leaves the Player records and the game states as they are and answers with no
  game state or with the stored one; or it has loaded a game state \<open>gs\<close>, derived \<open>gs'\<close>
  from it and stored \<open>gs'\<close> under the id of its player. Then either its second write has
  failed (\<open>failing\<close>): the Player records are as before and the response carries no game
  state; or the response carries \<open>gs'\<close>, and the handler has stored the player of \<open>gs'\<close>
  or has left the Player records alone and the player's coins as they were. The derived
  state keeps the player's id, and keeps equal coins and soundness where the loaded
  state has them.
\<close>

definition derivedState :: "GameState \<Rightarrow> GameState \<Rightarrow> bool" where
  "derivedState gs gs' =
     (p_id (gs_player gs') = p_id (gs_player gs)
      \<and> (coinsAgree gs \<longrightarrow> coinsAgree gs')
      \<and> (soundState gs \<longrightarrow> soundState gs'))"

definition handlerEffect :: "bool \<Rightarrow> string \<Rightarrow> World \<Rightarrow> Response \<Rightarrow> World \<Rightarrow> bool" where
  "handlerEffect failing k w resp w' =
     ((redis_player w' = redis_player w \<and> redis_gameState w' = redis_gameState w
       \<and> (responseGameState resp = None \<or> responseGameState resp = getGameState k w))
      \<or> (\<exists>gs gs'. getGameState k w = Some gs \<and> derivedState gs gs'
            \<and> redis_gameState w' = (redis_gameState w)(p_id (gs_player gs') \<mapsto> gs')
            \<and> (if failing
                 then responseGameState resp = None \<and> redis_player w' = redis_player w
                 else responseGameState resp = Some gs'
                      \<and> (redis_player w' = (redis_player w)(p_id (gs_player gs') \<mapsto> gs_player gs')
                           \<or> redis_player w' = redis_player w
                             \<and> p_coins (gs_player gs') = p_coins (gs_player gs)))))"

section \<open>Growth engine\<close>

text \<open>
  On integer time stamps the floored quotients of \<open>calculateTreeGrowth\<close> are integer
  divisions: by 20000 while the water bonus applies, by 30000 afterwards.
\<close>

lemma floor_bonus: "\<lfloor>(real_of_int d * (3 / 2)) / real_of_int 30000\<rfloor> = d div 20000"
proof -
  have "(real_of_int d * (3 / 2)) / real_of_int 30000 = real_of_int d / real_of_int 20000"
    by simp
  then show ?thesis by (simp only: floor_divide_of_int_eq)
qed

lemma floor_plain: "\<lfloor>(real_of_int d * 1) / real_of_int 30000\<rfloor> = d div 30000"
  by (simp only: mult_1_right floor_divide_of_int_eq)

lemma growth_bonus:
  assumes "now - t_lastWatered tree < 60000"
  shows "calculateTreeGrowth tree now = min ((now - t_plantedAt tree) div 20000) 5"
  unfolding calculateTreeGrowth_def Let_def GROWTH_TIME_def
  using assms by (simp only: if_True floor_bonus)

lemma growth_plain:
  assumes "\<not> now - t_lastWatered tree < 60000"
  shows "calculateTreeGrowth tree now = min ((now - t_plantedAt tree) div 30000) 5"
  unfolding calculateTreeGrowth_def Let_def GROWTH_TIME_def
  using assms by (simp only: if_False floor_plain)

text \<open>
  Claim C5. For every tree and every time \<open>now\<close>, the computed growth stage equals
  \<open>min(5, floor((now - plantedAt) * waterBonus / growthPeriod))\<close> with a growth period of
  30000 ms and a water bonus of 1.5 exactly when \<open>now - lastWatered < 60000\<close> ms, and 1.0
  otherwise.
\<close>

theorem calculateTreeGrowth_formula:
  "calculateTreeGrowth tree now = growthStage_spec tree now
   \<and> maxStage = 5 \<and> growthPeriod = 30000 \<and> wateredWindow = 60000
   \<and> waterBonus_spec tree now = (if now - t_lastWatered tree < 60000 then 1.5 else 1.0)"
  by (simp add: calculateTreeGrowth_def growthStage_spec_def waterBonus_spec_def maxStage_def
      growthPeriod_def wateredWindow_def GROWTH_TIME_def Let_def min.commute)

text \<open>
  Claim C1 does not hold as stated: with the plant time and the watering time fixed, the
  stage drops when the water bonus expires. A tree planted at 0 and watered at 40000 is
  at stage 4 at time 99999 and at stage 3 one millisecond later.
\<close>

theorem growth_drops_when_bonus_expires:
  "calculateTreeGrowth wateredTree 100000 < calculateTreeGrowth wateredTree 99999"
  by (simp add: growth_bonus growth_plain wateredTree_def)

text \<open>
  Claim C1, as amended. With \<open>plantedAt\<close> and \<open>lastWatered\<close> fixed, the computed growth
  stage is non-decreasing in \<open>now\<close> between two times that lie on the same side of the end
  of the water bonus: both less than 60000 ms after the last watering (it is enough that
  the later one is), or both at least 60000 ms after it (it is enough that the earlier
  one is).
\<close>

theorem growth_monotone_within_bonus_regime:
  assumes "now1 \<le> now2"
    and "now2 - t_lastWatered tree < 60000 \<or> 60000 \<le> now1 - t_lastWatered tree"
  shows "calculateTreeGrowth tree now1 \<le> calculateTreeGrowth tree now2"
proof -
  from assms(2) show ?thesis
  proof
    assume b: "now2 - t_lastWatered tree < 60000"
    with assms(1) have a: "now1 - t_lastWatered tree < 60000" by simp
    have "(now1 - t_plantedAt tree) div 20000 \<le> (now2 - t_plantedAt tree) div 20000"
      using assms(1) by (intro zdiv_mono1) simp_all
    then show ?thesis by (simp add: growth_bonus a b min_le_iff_disj)
  next
    assume a: "60000 \<le> now1 - t_lastWatered tree"
    with assms(1) have b: "\<not> now2 - t_lastWatered tree < 60000" by simp
    from a have a': "\<not> now1 - t_lastWatered tree < 60000" by simp
    have "(now1 - t_plantedAt tree) div 30000 \<le> (now2 - t_plantedAt tree) div 30000"
      using assms(1) by (intro zdiv_mono1) simp_all
    then show ?thesis by (simp add: growth_plain a' b min_le_iff_disj)
  qed
qed

theorem growth_monotone_within_bonus_regime_witness:
  "(50000::int) \<le> 70000 \<and> 70000 - t_lastWatered wateredTree < 60000
   \<and> calculateTreeGrowth wateredTree 50000 \<le> calculateTreeGrowth wateredTree 70000
   \<and> calculateTreeGrowth wateredTree 50000 = 2 \<and> calculateTreeGrowth wateredTree 70000 = 3"
  using growth_monotone_within_bonus_regime[of 50000 70000 wateredTree]
  by (simp add: wateredTree_def growth_bonus)

section \<open>Chat ring buffer\<close>

lemma slice_from_negative:
  "0 < n \<Longrightarrow> slice_from (- n) xs = drop (length xs - nat n) xs"
  by (auto simp: slice_from_def Let_def max_def intro!: arg_cong[where f="\<lambda>k. drop k xs"])

text \<open>
  The endpoint never passes \<open>0\<close> to \<open>getRecentChatMessages\<close>: \<open>parseInt(limit) || 20\<close> turns
  it into the default.
\<close>

lemma chatLimit_nonzero: "chatLimit parsed \<noteq> 0"
  by (simp add: chatLimit_def split: option.splits)

text \<open>
  Claim C9 does not hold as stated at the limit \<open>0\<close>: \<open>slice(-0)\<close> is \<open>slice(0)\<close>, so
  \<open>getRecentChatMessages(0)\<close> returns every stored message, not the last zero of them.
\<close>

theorem recent_zero_returns_everything:
  "getRecentChatMessages 0 [helloMessage] = [helloMessage]"
  by (simp add: getRecentChatMessages_def slice_from_def)

text \<open>
  Claim C9, as amended. The chat buffer keeps at most 100 messages; after an append it
  holds the last 100 messages of the old buffer followed by the new message, oldest
  evicted first and order kept; and for every positive limit,
  \<open>getRecentChatMessages(limit)\<close> returns exactly the last \<open>limit\<close> stored messages in
  chronological order.
\<close>

theorem chat_buffer_bounded_and_recent:
  "length (snd (addChatMessage newId now playerId username message isSystem msgs)) \<le> 100
   \<and> snd (addChatMessage newId now playerId username message isSystem msgs)
       = drop (length (msgs @ [fst (addChatMessage newId now playerId username message isSystem msgs)]) - 100)
              (msgs @ [fst (addChatMessage newId now playerId username message isSystem msgs)])
   \<and> (0 < limit \<longrightarrow> getRecentChatMessages limit msgs = drop (length msgs - nat limit) msgs)"
  by (auto simp: addChatMessage_def Let_def slice_from_negative getRecentChatMessages_def)

theorem chat_buffer_bounded_and_recent_witness:
  "getRecentChatMessages 1 [helloMessage, helloMessage\<lparr>cm_id := ''chat_2''\<rparr>]
     = [helloMessage\<lparr>cm_id := ''chat_2''\<rparr>]"
  using chat_buffer_bounded_and_recent
    [where limit = 1 and msgs = "[helloMessage, helloMessage\<lparr>cm_id := ''chat_2''\<rparr>]"]
  by simp

section \<open>Achievement evaluator\<close>

lemma notHeld_iff: "notHeld player i = (i \<notin> a_id ` set (p_achievements player))"
  by (auto simp: notHeld_def find_None_iff)

lemma achievement_ids [simp]:
  "a_id ACHIEVEMENTS_first_tree = ''first_tree''"
  "a_id ACHIEVEMENTS_tree_master = ''tree_master''"
  "a_id ACHIEVEMENTS_harvester = ''harvester''"
  "a_id ACHIEVEMENTS_landowner = ''landowner''"
  "a_id ACHIEVEMENTS_millionaire = ''millionaire''"
  "a_id ACHIEVEMENTS_master_gardener = ''master_gardener''"
  by (simp_all add: ACHIEVEMENT_def ACHIEVEMENTS_first_tree_def ACHIEVEMENTS_tree_master_def
      ACHIEVEMENTS_harvester_def ACHIEVEMENTS_landowner_def ACHIEVEMENTS_millionaire_def
      ACHIEVEMENTS_master_gardener_def)

lemma image_set_single: "f ` set (if c then [x] else []) = (if c then {f x} else {})"
  by (cases c) simp_all

lemma check_ids:
  "a_id ` set (checkAchievements player action count now) =
     (if action = ''plant_tree'' \<and> notHeld player ''first_tree'' then {''first_tree''} else {})
   \<union> (if action = ''plant_tree'' \<and> countAtLeast count 50 \<and> notHeld player ''tree_master'' then {''tree_master''} else {})
   \<union> (if action = ''harvest_tree'' \<and> countAtLeast count 25 \<and> notHeld player ''harvester'' then {''harvester''} else {})
   \<union> (if action = ''buy_land'' \<and> length (p_landPlots player) \<ge> 5 \<and> notHeld player ''landowner'' then {''landowner''} else {})
   \<union> (if p_coins player \<ge> 10000 \<and> notHeld player ''millionaire'' then {''millionaire''} else {})
   \<union> (if p_level player \<ge> 25 \<and> notHeld player ''master_gardener'' then {''master_gardener''} else {})"
  unfolding checkAchievements_def set_append image_Un image_set_single
  by (simp add: Un_assoc split del: if_split cong: if_cong)

lemma check_fresh:
  "i \<in> a_id ` set (checkAchievements player action count now) \<Longrightarrow> notHeld player i"
  unfolding check_ids by (auto split: if_splits)

lemma check_empty_iff:
  "(checkAchievements player action count now = []) =
     (\<not> (action = ''plant_tree'' \<and> notHeld player ''first_tree'')
    \<and> \<not> (action = ''plant_tree'' \<and> countAtLeast count 50 \<and> notHeld player ''tree_master'')
    \<and> \<not> (action = ''harvest_tree'' \<and> countAtLeast count 25 \<and> notHeld player ''harvester'')
    \<and> \<not> (action = ''buy_land'' \<and> length (p_landPlots player) \<ge> 5 \<and> notHeld player ''landowner'')
    \<and> \<not> (p_coins player \<ge> 10000 \<and> notHeld player ''millionaire'')
    \<and> \<not> (p_level player \<ge> 25 \<and> notHeld player ''master_gardener''))"
  unfolding checkAchievements_def by simp

lemma notHeld_append:
  "notHeld (player\<lparr>p_achievements := p_achievements player @ ys\<rparr>) i
     = (notHeld player i \<and> i \<notin> a_id ` set ys)"
  by (auto simp: notHeld_iff)

text \<open>
  Claim C7. Achievement evaluation is idempotent: for every player state, action and
  count, no achievement whose id is already among the player's achievements is returned;
  and once the result of a call is appended to the player's achievements, a second call
  with the same action and count (at any later time) returns the empty list.
\<close>

theorem checkAchievements_idempotent:
  "a_id ` set (checkAchievements player action count now) \<inter> a_id ` set (p_achievements player) = {}
   \<and> checkAchievements
        (player\<lparr>p_achievements := p_achievements player @ checkAchievements player action count now\<rparr>)
        action count now' = []"
proof
  show "a_id ` set (checkAchievements player action count now) \<inter> a_id ` set (p_achievements player) = {}"
    using check_fresh[of _ player action count now] by (auto simp: notHeld_iff)
  show "checkAchievements
        (player\<lparr>p_achievements := p_achievements player @ checkAchievements player action count now\<rparr>)
        action count now' = []"
    unfolding check_empty_iff notHeld_append check_ids by simp
qed

section \<open>JavaScript numbers\<close>

lemma rne_of_int [simp]: "rne (of_int m) = m"
  by (simp add: rne_def)

lemma rne_0 [simp]: "rne 0 = 0"
  by (simp add: rne_def)

lemma rne_nonneg: "0 \<le> r \<Longrightarrow> 0 \<le> rne r"
  by (auto simp: rne_def Let_def)


lemma rne_tie_even:
  assumes "even m"
  shows "rne (of_int m + 1 / 2) = m"
proof -
  have "\<lfloor>of_int m + (1 / 2 :: real)\<rfloor> = m" by (simp add: floor_eq_iff)
  then show ?thesis using assms by (simp add: rne_def Let_def)
qed

lemma floor_log2_eq:
  assumes "2 powi k \<le> x" and "x < 2 powi (k + 1)"
  shows "\<lfloor>log 2 x\<rfloor> = k"
proof -
  have pos: "0 < x" using assms(1) by (smt (verit) zero_less_power_int)
  have a: "real_of_int k \<le> log 2 x"
    using assms(1) pos by (simp add: le_log_iff powr_real_of_int')
  have b: "log 2 x < real_of_int (k + 1)"
    using assms(2) pos by (simp add: log_less_iff powr_real_of_int' del: of_int_add)
  from a b show ?thesis by (simp add: floor_eq_iff)
qed

lemma fl_binade:
  assumes "2 powi k \<le> \<bar>x\<bar>" and "\<bar>x\<bar> < 2 powi (k + 1)" and "- 1022 \<le> k"
  shows "fl x = of_int (rne (x / 2 powi (k - 52))) * 2 powi (k - 52)"
proof -
  have "x \<noteq> 0" using assms(1) by (smt (verit) zero_less_power_int abs_zero)
  moreover have "binade x = k"
    using floor_log2_eq[OF assms(1,2)] assms(3) by (simp add: binade_def)
  ultimately show ?thesis by (simp add: fl_def Let_def)
qed

lemma fl_0 [simp]: "fl 0 = 0"
  by (simp add: fl_def)

lemma fl_nonneg: "0 \<le> x \<Longrightarrow> 0 \<le> fl x"
  by (simp add: fl_def Let_def rne_nonneg)

text \<open>A number \<open>m * 2^j\<close> with a significand below \<open>2^53\<close> is a double, and rounding keeps it.\<close>

lemma fl_representable:
  assumes x: "x = of_int m * 2 powi j" and m: "\<bar>m\<bar> < 2 ^ 53" and j: "- 1074 \<le> j"
  shows "fl x = x"
proof (cases "m = 0")
  case True with x show ?thesis by simp
next
  case False
  then have x0: "x \<noteq> 0" using x by simp
  have absx: "\<bar>x\<bar> = of_int \<bar>m\<bar> * 2 powi j" using x by (simp add: abs_mult)
  have lt: "\<bar>x\<bar> < 2 powi (j + 53)"
  proof -
    have "real_of_int \<bar>m\<bar> < 2 ^ 53" using m by (metis of_int_less_numeral_power_cancel_iff)
    then have "of_int \<bar>m\<bar> * 2 powi j < (2 ^ 53) * (2::real) powi j"
      by (intro mult_strict_right_mono) simp_all
    also have "\<dots> = 2 powi (j + 53)" by (simp add: power_int_add)
    finally show ?thesis using absx by simp
  qed
  have "log 2 \<bar>x\<bar> < real_of_int (j + 53)"
    using lt x0 by (simp add: log_less_iff powr_real_of_int' del: of_int_add)
  then have fl_lt: "\<lfloor>log 2 \<bar>x\<bar>\<rfloor> < j + 53" by (simp add: floor_less_iff del: of_int_add)
  have b: "binade x - 52 \<le> j"
    using fl_lt j by (simp add: binade_def)
  define e where "e = binade x - 52"
  define d where "d = nat (j - e)"
  have jd: "j = e + int d" using b by (simp add: d_def e_def)
  have xe: "x = of_int (m * 2 ^ d) * 2 powi e"
    using x by (simp add: jd power_int_add)
  have u: "(2::real) powi e \<noteq> 0" by simp
  have q: "x / 2 powi e = of_int (m * 2 ^ d)"
    by (subst xe) (simp only: nonzero_mult_div_cancel_right[OF u])
  have "fl x = of_int (rne (x / 2 powi e)) * 2 powi e"
    using x0 by (simp add: fl_def Let_def e_def)
  also have "\<dots> = of_int (m * 2 ^ d) * 2 powi e"
    by (simp only: q rne_of_int)
  also have "\<dots> = x" using xe by simp
  finally show ?thesis .
qed

lemma fl_of_int: "\<bar>n\<bar> \<le> 2 ^ 53 \<Longrightarrow> fl (of_int n) = of_int n"
proof -
  assume n: "\<bar>n\<bar> \<le> 2 ^ 53"
  show ?thesis
  proof (cases "\<bar>n\<bar> < 2 ^ 53")
    case True
    from fl_representable[of "of_int n" n 0] True show ?thesis by simp
  next
    case False
    with n have "\<bar>n\<bar> = 2 ^ 53" by simp
    then have "even n" by (metis even_abs_add_iff even_add even_numeral even_power zero_less_numeral)
    then obtain h where h: "n = 2 * h" by (auto elim: evenE)
    with \<open>\<bar>n\<bar> = 2 ^ 53\<close> have "\<bar>h\<bar> < 2 ^ 53" by (simp add: abs_mult)
    from fl_representable[of "of_int n" h 1] h this show ?thesis by simp
  qed
qed

lemma below_maxDouble:
  assumes "x \<le> 2 ^ 1023"
  shows "x \<le> maxDouble"
proof -
  have "(2::real) ^ 1023 = 2 ^ 52 * 2 ^ 971" by (simp flip: power_add)
  also have "\<dots> \<le> (2 ^ 53 - 1) * 2 ^ 971"
    by (intro mult_right_mono) simp_all
  finally show ?thesis using assms by (simp add: maxDouble_def)
qed

lemma dval_exact:
  assumes "fl x = x" and "\<bar>x\<bar> \<le> 2 ^ 1023"
  shows "dval x = Some x"
  using assms below_maxDouble[of "\<bar>x\<bar>"] by (simp add: dval_def)

lemma int_below_maxDouble:
  assumes "\<bar>n\<bar> \<le> 2 ^ 53"
  shows "\<bar>real_of_int n\<bar> \<le> 2 ^ 1023"
proof -
  have "\<bar>real_of_int n\<bar> = real_of_int \<bar>n\<bar>" by simp
  also have "\<dots> \<le> 2 ^ 53" using assms by (metis of_int_le_numeral_power_cancel_iff)
  also have "\<dots> \<le> (2::real) ^ 1023" by (rule power_increasing) simp_all
  finally show ?thesis .
qed

lemma num_exact: "\<bar>n\<bar> \<le> 2 ^ 53 \<Longrightarrow> num n = n"
  by (simp add: num_def fl_of_int)

lemma num_nonneg: "0 \<le> n \<Longrightarrow> 0 \<le> num n"
  by (simp add: num_def fl_nonneg)

lemma dint_exact: "\<bar>n\<bar> \<le> 2 ^ 53 \<Longrightarrow> dint n = Some n"
  using dval_exact[OF fl_of_int int_below_maxDouble, of n] by (simp add: dint_def)

lemma dint_nonneg:
  assumes "dint n = Some m" and "0 \<le> n"
  shows "0 \<le> m"
  using assms fl_nonneg[of "of_int n"] by (auto simp: dint_def dval_def split: if_splits)

lemma dint_num: "dint n = Some m \<Longrightarrow> m = num n"
  by (auto simp: dint_def dval_def num_def split: if_splits)

lemma isNumber_exact: "\<bar>n\<bar> \<le> 2 ^ 53 \<Longrightarrow> isNumber n"
  by (simp add: isNumber_def dint_exact)

lemma rne_nonpos: "r \<le> 0 \<Longrightarrow> rne r \<le> 0"
proof -
  assume r: "r \<le> 0"
  show ?thesis
  proof (cases "r = 0")
    case True then show ?thesis by (simp add: rne_def)
  next
    case False
    with r have "r < 0" by simp
    then have f: "\<lfloor>r\<rfloor> \<le> - 1" by (simp add: floor_le_iff)
    then show ?thesis by (auto simp: rne_def Let_def)
  qed
qed

lemma fl_nonpos: "x \<le> 0 \<Longrightarrow> fl x \<le> 0"
proof -
  assume "x \<le> 0"
  then have "x / 2 powi (binade x - 52) \<le> 0"
    by (simp add: divide_nonpos_pos)
  then have "rne (x / 2 powi (binade x - 52)) \<le> 0" by (rule rne_nonpos)
  then have "of_int (rne (x / 2 powi (binade x - 52))) * 2 powi (binade x - 52) \<le> (0::real)"
    by (simp add: mult_le_0_iff)
  then show ?thesis by (simp add: fl_def Let_def)
qed

lemma dint_nonpos:
  assumes "dint n = Some m" and "n \<le> 0"
  shows "m \<le> 0"
  using assms fl_nonpos[of "of_int n"] by (auto simp: dint_def dval_def floor_le_iff split: if_splits)

text \<open>Small integers are doubles.\<close>

lemma dval_of_int: "\<bar>n\<bar> \<le> 2 ^ 53 \<Longrightarrow> dval (of_int n) = Some (of_int n)"
  using dval_exact[OF fl_of_int int_below_maxDouble, of n] by simp

lemma dval_0 [simp]: "dval 0 = Some 0"
  using dval_of_int[of 0] by simp

lemma dval_1 [simp]: "dval 1 = Some 1"
  using dval_of_int[of 1] by simp

lemma dval_numeral [simp]: "numeral k \<le> (2::int) ^ 53 \<Longrightarrow> dval (numeral k) = Some (numeral k)"
  using dval_of_int[of "numeral k"] by simp

lemma dval_neg_numeral [simp]:
  "numeral k \<le> (2::int) ^ 53 \<Longrightarrow> dval (- numeral k) = Some (- numeral k)"
  using dval_of_int[of "- numeral k"] by simp

lemma num_0 [simp]: "num 0 = 0"
  using num_exact[of 0] by simp

lemma num_1 [simp]: "num 1 = 1"
  using num_exact[of 1] by simp

lemma num_numeral [simp]: "numeral k \<le> (2::int) ^ 53 \<Longrightarrow> num (numeral k) = numeral k"
  using num_exact[of "numeral k"] by simp

lemma num_neg_numeral [simp]: "numeral k \<le> (2::int) ^ 53 \<Longrightarrow> num (- numeral k) = - numeral k"
  using num_exact[of "- numeral k"] by simp

lemma dint_0 [simp]: "dint 0 = Some 0"
  using dint_exact[of 0] by simp

lemma dint_1 [simp]: "dint 1 = Some 1"
  using dint_exact[of 1] by simp

lemma dint_numeral [simp]: "numeral k \<le> (2::int) ^ 53 \<Longrightarrow> dint (numeral k) = Some (numeral k)"
  using dint_exact[of "numeral k"] by simp

lemma dint_neg_numeral [simp]:
  "numeral k \<le> (2::int) ^ 53 \<Longrightarrow> dint (- numeral k) = Some (- numeral k)"
  using dint_exact[of "- numeral k"] by simp









text \<open>The roundings of the examples.\<close>

lemma dint_cost: "dint (- 90071992547409920) = Some (- 90071992547409920)"
proof -
  have "fl (real_of_int (- 90071992547409920)) = real_of_int (- 90071992547409920)"
    by (rule fl_representable[where m = "- 5" and j = 54]) simp_all
  moreover have "\<bar>real_of_int (- 90071992547409920)\<bar> \<le> 2 ^ 1023"
  proof -
    have "\<bar>real_of_int (- 90071992547409920)\<bar> \<le> 2 ^ 57" by simp
    also have "\<dots> \<le> (2::real) ^ 1023" by (rule power_increasing) simp_all
    finally show ?thesis .
  qed
  ultimately have "dval (real_of_int (- 90071992547409920)) = Some (real_of_int (- 90071992547409920))"
    by (rule dval_exact)
  then show ?thesis by (simp add: dint_def)
qed

lemma fl_balance: "fl 90071992547410120 = 90071992547410112"
proof -
  have "fl 90071992547410120 = of_int (rne (90071992547410120 / 2 powi (56 - 52))) * 2 powi (56 - 52)"
    by (rule fl_binade) simp_all
  also have "(90071992547410120::real) / 2 powi (56 - 52) = of_int 5629499534213132 + 1 / 2"
    by simp
  also have "rne (of_int 5629499534213132 + 1 / 2) = 5629499534213132"
    by (rule rne_tie_even) simp
  finally show ?thesis by simp
qed

lemma dint_balance: "dint 90071992547410120 = Some 90071992547410112"
proof -
  have "\<bar>90071992547410112 :: real\<bar> \<le> 2 ^ 57" by simp
  also have "\<dots> \<le> (2::real) ^ 1023" by (rule power_increasing) simp_all
  finally have "\<bar>90071992547410112 :: real\<bar> \<le> maxDouble" by (rule below_maxDouble)
  then show ?thesis by (simp add: dint_def dval_def fl_balance)
qed




lemma fl_numeral_small: "fl 20 = 20" "fl 400 = 400"
  using fl_of_int[of 20] fl_of_int[of 400] by simp_all

section \<open>Proximity query\<close>









section \<open>Plot allocator\<close>

lemma scanZ_None:
  "(scanZ C x z = None) = (\<forall>k. z \<le> k \<and> k < GRID_HEIGHT \<longrightarrow> (x, k) \<in> C)"
proof (induction C x z rule: scanZ.induct)
  case (1 C x z)
  show ?case
  proof (cases "z < GRID_HEIGHT \<and> (x, z) \<in> C")
    case True
    then have "(scanZ C x z = None) = (scanZ C x (z + 1) = None)"
      by (subst scanZ.simps) simp
    also have "\<dots> = (\<forall>k. z + 1 \<le> k \<and> k < GRID_HEIGHT \<longrightarrow> (x, k) \<in> C)"
      using 1 True by simp
    also have "\<dots> = (\<forall>k. z \<le> k \<and> k < GRID_HEIGHT \<longrightarrow> (x, k) \<in> C)"
    proof (intro iffI allI impI)
      fix k assume h: "\<forall>k. z + 1 \<le> k \<and> k < GRID_HEIGHT \<longrightarrow> (x, k) \<in> C"
        and k: "z \<le> k \<and> k < GRID_HEIGHT"
      show "(x, k) \<in> C"
      proof (cases "k = z")
        case True with \<open>z < GRID_HEIGHT \<and> (x, z) \<in> C\<close> show ?thesis by simp
      next
        case False with k have "z + 1 \<le> k \<and> k < GRID_HEIGHT" by simp
        with h show ?thesis by blast
      qed
    next
      fix k assume h: "\<forall>k. z \<le> k \<and> k < GRID_HEIGHT \<longrightarrow> (x, k) \<in> C"
        and k: "z + 1 \<le> k \<and> k < GRID_HEIGHT"
      then have "z \<le> k \<and> k < GRID_HEIGHT" by simp
      with h show "(x, k) \<in> C" by blast
    qed
    finally show ?thesis .
  next
    case False
    then show ?thesis by (subst scanZ.simps) auto
  qed
qed


lemma scanZ_Some:
  "(scanZ C x z = Some c) =
     (\<exists>k. c = (x, k) \<and> z \<le> k \<and> k < GRID_HEIGHT \<and> (x, k) \<notin> C
          \<and> (\<forall>j. z \<le> j \<and> j < k \<longrightarrow> (x, j) \<in> C))"
proof (induction C x z rule: scanZ.induct)
  case (1 C x z)
  show ?case
  proof (cases "z < GRID_HEIGHT")
    case False
    then show ?thesis by (subst scanZ.simps) auto
  next
    case zlt: True
    show ?thesis
    proof (cases "(x, z) \<in> C")
      case False
      have "(\<exists>k. c = (x, k) \<and> z \<le> k \<and> k < GRID_HEIGHT \<and> (x, k) \<notin> C
          \<and> (\<forall>j. z \<le> j \<and> j < k \<longrightarrow> (x, j) \<in> C)) = (c = (x, z))"
        using False zlt by (metis le_eq_less_or_eq le_refl not_less)
      moreover have "(scanZ C x z = Some c) = (c = (x, z))"
        using False zlt by (subst scanZ.simps) auto
      ultimately show ?thesis by simp
    next
      case True
      have "(scanZ C x z = Some c) = (scanZ C x (z + 1) = Some c)"
        using True zlt by (subst scanZ.simps) simp
      also have "\<dots> = (\<exists>k. c = (x, k) \<and> z + 1 \<le> k \<and> k < GRID_HEIGHT \<and> (x, k) \<notin> C
          \<and> (\<forall>j. z + 1 \<le> j \<and> j < k \<longrightarrow> (x, j) \<in> C))"
        using 1 True zlt by simp
      also have "\<dots> = (\<exists>k. c = (x, k) \<and> z \<le> k \<and> k < GRID_HEIGHT \<and> (x, k) \<notin> C
          \<and> (\<forall>j. z \<le> j \<and> j < k \<longrightarrow> (x, j) \<in> C))"
      proof (intro iffI; elim exE conjE)
        fix k assume "c = (x, k)" "z + 1 \<le> k" "k < GRID_HEIGHT" "(x, k) \<notin> C"
          "\<forall>j. z + 1 \<le> j \<and> j < k \<longrightarrow> (x, j) \<in> C"
        moreover have "\<forall>j. z \<le> j \<and> j < k \<longrightarrow> (x, j) \<in> C"
        proof (intro allI impI)
          fix j assume "z \<le> j \<and> j < k"
          then show "(x, j) \<in> C"
            using True calculation(5) by (cases "j = z") auto
        qed
        ultimately show "\<exists>k. c = (x, k) \<and> z \<le> k \<and> k < GRID_HEIGHT \<and> (x, k) \<notin> C
          \<and> (\<forall>j. z \<le> j \<and> j < k \<longrightarrow> (x, j) \<in> C)" by auto
      next
        fix k assume a: "c = (x, k)" "z \<le> k" "k < GRID_HEIGHT" "(x, k) \<notin> C"
          "\<forall>j. z \<le> j \<and> j < k \<longrightarrow> (x, j) \<in> C"
        then have "k \<noteq> z" using True by auto
        with a show "\<exists>k. c = (x, k) \<and> z + 1 \<le> k \<and> k < GRID_HEIGHT \<and> (x, k) \<notin> C
          \<and> (\<forall>j. z + 1 \<le> j \<and> j < k \<longrightarrow> (x, j) \<in> C)" by auto
      qed
      finally show ?thesis .
    qed
  qed
qed


lemma scanX_None:
  "(scanX C x = None) =
     (\<forall>i k. x \<le> i \<and> i < GRID_WIDTH \<and> k < GRID_HEIGHT \<longrightarrow> (i, k) \<in> C)"
proof (induction C x rule: scanX.induct)
  case (1 C x)
  show ?case
  proof (cases "x < GRID_WIDTH")
    case False
    then have "scanX C x = None" by (subst scanX.simps) simp
    moreover have "\<forall>i k. x \<le> i \<and> i < GRID_WIDTH \<and> k < GRID_HEIGHT \<longrightarrow> (i, k) \<in> C"
    proof (intro allI impI)
      fix i k assume "x \<le> i \<and> i < GRID_WIDTH \<and> k < GRID_HEIGHT"
      then have "x < GRID_WIDTH" by simp
      with False show "(i, k) \<in> C" by simp
    qed
    ultimately show ?thesis by simp
  next
    case xlt: True
    show ?thesis
    proof (cases "scanZ C x 0")
      case (Some c)
      then have ne: "scanX C x \<noteq> None" using xlt by (subst scanX.simps) simp
      from Some obtain k where k: "k < GRID_HEIGHT" "(x, k) \<notin> C"
        unfolding scanZ_Some by blast
      have nall: "\<not> (\<forall>i k. x \<le> i \<and> i < GRID_WIDTH \<and> k < GRID_HEIGHT \<longrightarrow> (i, k) \<in> C)"
      proof
        assume "\<forall>i k. x \<le> i \<and> i < GRID_WIDTH \<and> k < GRID_HEIGHT \<longrightarrow> (i, k) \<in> C"
        then have "x \<le> x \<and> x < GRID_WIDTH \<and> k < GRID_HEIGHT \<longrightarrow> (x, k) \<in> C" by blast
        with xlt k show False by simp
      qed
      from ne nall show ?thesis by blast
    next
      case None
      then have row: "\<And>k. k < GRID_HEIGHT \<Longrightarrow> (x, k) \<in> C" unfolding scanZ_None by simp
      have "(scanX C x = None) = (scanX C (x + 1) = None)"
        using None xlt by (subst scanX.simps) simp
      also have "\<dots> = (\<forall>i k. x + 1 \<le> i \<and> i < GRID_WIDTH \<and> k < GRID_HEIGHT \<longrightarrow> (i, k) \<in> C)"
        using "1.IH"[OF xlt None] .
      also have "\<dots> = (\<forall>i k. x \<le> i \<and> i < GRID_WIDTH \<and> k < GRID_HEIGHT \<longrightarrow> (i, k) \<in> C)"
      proof (intro iffI allI impI)
        fix i k assume h: "\<forall>i k. x + 1 \<le> i \<and> i < GRID_WIDTH \<and> k < GRID_HEIGHT \<longrightarrow> (i, k) \<in> C"
          and ik: "x \<le> i \<and> i < GRID_WIDTH \<and> k < GRID_HEIGHT"
        show "(i, k) \<in> C"
        proof (cases "i = x")
          case True with ik row show ?thesis by simp
        next
          case False with ik have "x + 1 \<le> i \<and> i < GRID_WIDTH \<and> k < GRID_HEIGHT" by simp
          with h show ?thesis by blast
        qed
      next
        fix i k assume h: "\<forall>i k. x \<le> i \<and> i < GRID_WIDTH \<and> k < GRID_HEIGHT \<longrightarrow> (i, k) \<in> C"
          and ik: "x + 1 \<le> i \<and> i < GRID_WIDTH \<and> k < GRID_HEIGHT"
        then have "x \<le> i \<and> i < GRID_WIDTH \<and> k < GRID_HEIGHT" by simp
        with h show "(i, k) \<in> C" by blast
      qed
      finally show ?thesis .
    qed
  qed
qed


lemma scanX_Some:
  "(scanX C x = Some (a, b)) =
     (x \<le> a \<and> a < GRID_WIDTH \<and> b < GRID_HEIGHT \<and> (a, b) \<notin> C
      \<and> (\<forall>i k. x \<le> i \<and> i < GRID_WIDTH \<and> k < GRID_HEIGHT \<and> (i < a \<or> (i = a \<and> k < b))
             \<longrightarrow> (i, k) \<in> C))"
  (is "?L C x = ?R C x")
proof (induction C x rule: scanX.induct)
  case (1 C x)
  show ?case
  proof (cases "x < GRID_WIDTH")
    case False
    then have "scanX C x = None" by (subst scanX.simps) simp
    then have nl: "\<not> ?L C x" by simp
    have nr: "\<not> ?R C x"
    proof
      assume "?R C x"
      then have "x \<le> a" "a < GRID_WIDTH" by simp_all
      with False show False by simp
    qed
    show ?thesis
    proof
      assume "?L C x" with nl show "?R C x" by contradiction
    next
      assume "?R C x" with nr show "?L C x" by contradiction
    qed
  next
    case xlt: True
    show ?thesis
    proof (cases "scanZ C x 0")
      case (Some d)
      then have sx: "scanX C x = Some d" using xlt by (subst scanX.simps) simp
      from Some obtain k where d: "d = (x, k)" and kh: "k < GRID_HEIGHT" and kc: "(x, k) \<notin> C"
        and before: "\<forall>j. 0 \<le> j \<and> j < k \<longrightarrow> (x, j) \<in> C"
        unfolding scanZ_Some by blast
      show ?thesis
      proof
        assume "?L C x"
        with sx d have ab: "a = x" "b = k" by simp_all
        have "\<forall>i j. x \<le> i \<and> i < GRID_WIDTH \<and> j < GRID_HEIGHT \<and> (i < a \<or> (i = a \<and> j < b))
             \<longrightarrow> (i, j) \<in> C"
        proof (intro allI impI)
          fix i j
          assume h: "x \<le> i \<and> i < GRID_WIDTH \<and> j < GRID_HEIGHT \<and> (i < a \<or> (i = a \<and> j < b))"
          with ab have "i = x \<and> j < k" by auto
          with before show "(i, j) \<in> C" by simp
        qed
        with ab xlt kh kc show "?R C x" by simp
      next
        assume r: "?R C x"
        then have r1: "x \<le> a" "a < GRID_WIDTH" "b < GRID_HEIGHT" "(a, b) \<notin> C" by simp_all
        from r have r2: "\<And>i j. x \<le> i \<Longrightarrow> i < GRID_WIDTH \<Longrightarrow> j < GRID_HEIGHT
              \<Longrightarrow> (i < a \<or> (i = a \<and> j < b)) \<Longrightarrow> (i, j) \<in> C" by blast
        have ax: "a = x"
        proof (rule ccontr)
          assume "a \<noteq> x"
          with r1 have "x < a" by simp
          then have "(x, k) \<in> C" using r2[of x k] xlt kh by simp
          with kc show False by simp
        qed
        have bk: "b = k"
        proof (rule ccontr)
          assume "b \<noteq> k"
          then consider "b < k" | "k < b" by linarith
          then show False
          proof cases
            case 1
            with before have "(x, b) \<in> C" by simp
            with r1 ax show False by simp
          next
            case 2
            then have "(x, k) \<in> C" using r2[of x k] xlt kh ax by simp
            with kc show False by simp
          qed
        qed
        from sx d ax bk show "?L C x" by simp
      qed
    next
      case None
      then have row: "\<And>k. k < GRID_HEIGHT \<Longrightarrow> (x, k) \<in> C" unfolding scanZ_None by simp
      have "?L C x = ?L C (x + 1)"
        using None xlt by (subst scanX.simps) simp
      also have "\<dots> = ?R C (x + 1)"
        using "1.IH"[OF xlt None] .
      also have "\<dots> = ?R C x"
      proof
        assume r: "?R C (x + 1)"
        then have r1: "x + 1 \<le> a" "a < GRID_WIDTH" "b < GRID_HEIGHT" "(a, b) \<notin> C" by simp_all
        from r have r2: "\<And>i j. x + 1 \<le> i \<Longrightarrow> i < GRID_WIDTH \<Longrightarrow> j < GRID_HEIGHT
              \<Longrightarrow> (i < a \<or> (i = a \<and> j < b)) \<Longrightarrow> (i, j) \<in> C" by blast
        have "\<forall>i j. x \<le> i \<and> i < GRID_WIDTH \<and> j < GRID_HEIGHT \<and> (i < a \<or> (i = a \<and> j < b))
             \<longrightarrow> (i, j) \<in> C"
        proof (intro allI impI)
          fix i j
          assume h: "x \<le> i \<and> i < GRID_WIDTH \<and> j < GRID_HEIGHT \<and> (i < a \<or> (i = a \<and> j < b))"
          show "(i, j) \<in> C"
          proof (cases "i = x")
            case True with h row show ?thesis by simp
          next
            case False with h have "x + 1 \<le> i" by simp
            with h show ?thesis using r2[of i j] by blast
          qed
        qed
        with r1 show "?R C x" by simp
      next
        assume r: "?R C x"
        then have r1: "x \<le> a" "a < GRID_WIDTH" "b < GRID_HEIGHT" "(a, b) \<notin> C" by simp_all
        from r have r2: "\<And>i j. x \<le> i \<Longrightarrow> i < GRID_WIDTH \<Longrightarrow> j < GRID_HEIGHT
              \<Longrightarrow> (i < a \<or> (i = a \<and> j < b)) \<Longrightarrow> (i, j) \<in> C" by blast
        have "a \<noteq> x" using r1 row[of b] by auto
        with r1 have xa: "x + 1 \<le> a" by simp
        have "\<forall>i j. x + 1 \<le> i \<and> i < GRID_WIDTH \<and> j < GRID_HEIGHT \<and> (i < a \<or> (i = a \<and> j < b))
             \<longrightarrow> (i, j) \<in> C"
        proof (intro allI impI)
          fix i j
          assume h: "x + 1 \<le> i \<and> i < GRID_WIDTH \<and> j < GRID_HEIGHT \<and> (i < a \<or> (i = a \<and> j < b))"
          then have "x \<le> i" by simp
          with h show "(i, j) \<in> C" using r2[of i j] by blast
        qed
        with xa r1 show "?R C (x + 1)" by simp
      qed
      finally show ?thesis .
    qed
  qed
qed

lemma findAvailablePlot_Some:
  "(findAvailablePlot C = Some (a, b)) =
     (a < GRID_WIDTH \<and> b < GRID_HEIGHT \<and> (a, b) \<notin> C
      \<and> (\<forall>i k. i < GRID_WIDTH \<and> k < GRID_HEIGHT \<and> (i < a \<or> (i = a \<and> k < b)) \<longrightarrow> (i, k) \<in> C))"
  unfolding findAvailablePlot_def scanX_Some by simp

lemma findAvailablePlot_None:
  "(findAvailablePlot C = None) = (\<forall>i k. i < GRID_WIDTH \<and> k < GRID_HEIGHT \<longrightarrow> (i, k) \<in> C)"
  unfolding findAvailablePlot_def scanX_None by simp

lemma grid_dims: "GRID_WIDTH = 200" "GRID_HEIGHT = 200"
  by (simp_all add: GRID_WIDTH_def GRID_HEIGHT_def WORLD_WIDTH_def WORLD_HEIGHT_def
      PLOT_WIDTH_def PLOT_HEIGHT_def)

lemma firstColumn_iff: "((i, k) \<in> firstColumn) = (i = 0 \<and> k < GRID_HEIGHT)"
  unfolding firstColumn_def by (simp add: image_iff)

lemma card_firstColumn: "card firstColumn = GRID_HEIGHT"
proof -
  have "card (Pair (0::nat) ` {0..<GRID_HEIGHT}) = card {0..<GRID_HEIGHT}"
    by (intro card_image inj_onI) simp
  then show ?thesis by (simp add: firstColumn_def)
qed

text \<open>
  Claim C6 does not hold as stated: \<open>findAvailablePlot\<close> does not look at the player cap.
  With the 200 cells of the first column claimed the cap \<open>MAX_PLAYERS\<close> is reached, and
  \<open>findAvailablePlot\<close> still returns the cell \<open>(1, 0)\<close>.
\<close>

theorem findAvailablePlot_ignores_player_cap:
  "MAX_PLAYERS \<le> card firstColumn \<and> findAvailablePlot firstColumn = Some (1, 0)"
proof
  show "MAX_PLAYERS \<le> card firstColumn"
    by (simp add: card_firstColumn grid_dims MAX_PLAYERS_def)
  have "\<forall>i k. i < GRID_WIDTH \<and> k < GRID_HEIGHT \<and> (i < 1 \<or> (i = 1 \<and> k < 0)) \<longrightarrow> (i, k) \<in> firstColumn"
    by (simp add: firstColumn_iff)
  then show "findAvailablePlot firstColumn = Some (1, 0)"
    unfolding findAvailablePlot_Some by (simp add: firstColumn_iff grid_dims)
qed

text \<open>
  Claim C6, as amended. For every state of the claimed-plots set, \<open>findAvailablePlot\<close>
  scans the cells by \<open>gridX\<close> and, within one \<open>gridX\<close>, by \<open>gridZ\<close>, and returns the first
  unclaimed cell of the grid in that order; it returns nothing exactly when every cell of
  the grid is claimed. It does not consult the player cap: the cap is enforced by
  \<open>claimPlot\<close>, which refuses every claim once \<open>MAX_PLAYERS\<close> cells are claimed and leaves
  the set unchanged.
\<close>

theorem findAvailablePlot_first_unclaimed:
  "(findAvailablePlot C = Some (a, b)) =
     (a < GRID_WIDTH \<and> b < GRID_HEIGHT \<and> (a, b) \<notin> C
      \<and> (\<forall>i k. i < GRID_WIDTH \<and> k < GRID_HEIGHT \<and> (i < a \<or> (i = a \<and> k < b)) \<longrightarrow> (i, k) \<in> C))
   \<and> (findAvailablePlot C = None) = (\<forall>i k. i < GRID_WIDTH \<and> k < GRID_HEIGHT \<longrightarrow> (i, k) \<in> C)
   \<and> (MAX_PLAYERS \<le> card C \<longrightarrow> claimPlot a b C = (False, C))"
  using findAvailablePlot_Some[of C a b] findAvailablePlot_None[of C]
  by (simp add: claimPlot_def)

theorem findAvailablePlot_first_unclaimed_witness:
  "findAvailablePlot {(0, 0)} = Some (0, 1) \<and> findAvailablePlot {(0, 0)} \<noteq> None"
  using findAvailablePlot_first_unclaimed[of "{(0, 0)}" 0 1]
  by (simp add: grid_dims)

section \<open>Land plots\<close>

lemma claimPlot_exclusive:
  "fst (claimPlot gridX gridZ C) \<Longrightarrow>
     (gridX, gridZ) \<notin> C \<and> card C < MAX_PLAYERS
     \<and> snd (claimPlot gridX gridZ C) = insert (gridX, gridZ) C
     \<and> \<not> fst (claimPlot gridX gridZ (snd (claimPlot gridX gridZ C)))"
  by (auto simp: claimPlot_def split: if_splits)

lemma find_empty: "findAvailablePlot {} = Some (0, 0)"
  by (simp add: findAvailablePlot_Some grid_dims)

lemma find_one: "findAvailablePlot {(0, 0)} = Some (0, 1)"
  by (simp add: findAvailablePlot_Some grid_dims)

lemma coords00: "getPlotWorldCoordinates 0 0 =
   \<lparr> startX = - 1000, startZ = - 2000, endX = - 990, endZ = - 1980, centerX = - 995, centerZ = - 1990 \<rparr>"
  by (simp add: getPlotWorldCoordinates_def WORLD_WIDTH_def WORLD_HEIGHT_def PLOT_WIDTH_def PLOT_HEIGHT_def)

lemma coords01: "getPlotWorldCoordinates 0 (Suc 0) =
   \<lparr> startX = - 1000, startZ = - 1980, endX = - 990, endZ = - 1960, centerX = - 995, centerZ = - 1970 \<rparr>"
  by (simp add: getPlotWorldCoordinates_def WORLD_WIDTH_def WORLD_HEIGHT_def PLOT_WIDTH_def PLOT_HEIGHT_def)

lemma afterAliceJoins_eq:
  "afterAliceJoins =
     \<lparr> redis_player = [''alice'' \<mapsto> alice1], redis_biome = [''massive_world'' \<mapsto> biome1],
       redis_gameState = [''alice'' \<mapsto> state1], w_claimedPlots = {(0, 0)}, w_chatMessages = [] \<rparr>"
  by (simp add: afterAliceJoins_def api_init_def emptyWorld_def getBiome_def getPlayer_def
      saveBiome_def savePlayer_def allocateStartingLand_def find_empty coords00 claimPlot_def
      MAX_PLAYERS_def init_finish_def getGameState_def saveGameState_def Let_def
      getDefaultBiome_def alice_def alice1_def biome1_def plot1_def state1_def
      getDefaultGameState_def getDefaultPlayer_def)

lemma checkAchievements_buy_land_none:
  "length (p_landPlots p) < 5 \<Longrightarrow> p_coins p < 10000 \<Longrightarrow> p_level p < 25
     \<Longrightarrow> checkAchievements p ''buy_land'' c now = []"
  by (simp add: check_empty_iff)

lemma afterAliceBuys_eq:
  "afterAliceBuys =
     \<lparr> redis_player = [''alice'' \<mapsto> alice2], redis_biome = [''massive_world'' \<mapsto> biome2],
       redis_gameState = [''alice'' \<mapsto> state2], w_claimedPlots = {(0, 0)}, w_chatMessages = [] \<rparr>"
  unfolding afterAliceBuys_def afterAliceJoins_eq
  by (simp add: api_buy_land_def falsy_def getGameState_def state1_def getDefaultGameState_def
      biome1_def plot1_def alice1_def alice_def getDefaultPlayer_def LAND_PLOT_COST_def
      checkAchievements_buy_land_none saveGameState_def savePlayer_def saveBiome_def
      getDefaultBiome_def Let_def state2_def alice2_def biome2_def plot2_def absDiffBelow_def)

lemma afterBobJoins_eq:
  "afterBobJoins =
     \<lparr> redis_player = [''alice'' \<mapsto> alice2, ''bob'' \<mapsto> bob3],
       redis_biome = [''massive_world'' \<mapsto> biome3],
       redis_gameState = [''alice'' \<mapsto> state2, ''bob'' \<mapsto> getDefaultGameState bob3 biome3 3000],
       w_claimedPlots = {(0, 1), (0, 0)}, w_chatMessages = [] \<rparr>"
  unfolding afterBobJoins_def afterAliceBuys_eq
  by (simp add: api_init_def getBiome_def getPlayer_def
      saveBiome_def savePlayer_def allocateStartingLand_def find_one coords01 claimPlot_def
      MAX_PLAYERS_def init_finish_def getGameState_def saveGameState_def Let_def
      getDefaultBiome_def biome1_def biome2_def biome3_def plot3_def bob3_def
      getDefaultGameState_def getDefaultPlayer_def)

lemma reachable_afterAliceJoins: "reachable afterAliceJoins"
proof -
  have "reachable (snd (perform None 1000 ''land_1'' 0 (Init (Some ''alice'')) emptyWorld))"
    by (rule reachable.step) (rule reachable.start)
  then show ?thesis by (simp add: afterAliceJoins_def)
qed

lemma reachable_afterBobJoins: "reachable afterBobJoins"
proof -
  have "reachable (snd (perform (Some ''post_1'') 2000 ''land_2'' 0
                          (BuyLand ''alice'' (- 995) (- 1970)) afterAliceJoins))"
    using reachable_afterAliceJoins by (rule reachable.step)
  then have b: "reachable afterAliceBuys" by (simp add: afterAliceBuys_def)
  have "reachable (snd (perform None 3000 ''land_3'' 0 (Init (Some ''bob'')) afterAliceBuys))"
    using b by (rule reachable.step)
  then show ?thesis by (simp add: afterBobJoins_def)
qed

text \<open>
  Claim C2 says that after every committed action each grid cell is claimed by at most
  one land plot, the allocator \<open>claimPlot\<close> enforcing this on every path that creates a
  plot. The land purchase creates its plot without calling \<open>claimPlot\<close>: its only check
  is a distance test against the plots of the buyer's copy of the biome. After \<open>alice\<close>
  joins (cell \<open>(0, 0)\<close>), buys land at the centre of cell \<open>(0, 1)\<close>, and \<open>bob\<close> joins,
  the allocator hands cell \<open>(0, 1)\<close> to \<open>bob\<close>: the shared biome holds two plots with
  the same centre, owned by different players, while only the two cells of the starting
  plots are in the claimed set.
\<close>

theorem purchase_bypasses_allocator:
  "reachable afterBobJoins
   \<and> plotCentres afterBobJoins = [(- 995, - 1990), (- 995, - 1970), (- 995, - 1970)]
   \<and> plotOwners afterBobJoins = [''alice'', ''alice'', ''bob'']
   \<and> w_claimedPlots afterBobJoins = {(0, 1), (0, 0)}"
  using reachable_afterBobJoins unfolding afterBobJoins_eq
  by (simp add: plotCentres_def plotOwners_def biome3_def plot1_def plot2_def plot3_def)

lemma afterFailedWrite_eq:
  "afterFailedWrite =
     \<lparr> redis_player = [''alice'' \<mapsto> alice1], redis_biome = [''massive_world'' \<mapsto> biome1],
       redis_gameState = [''alice'' \<mapsto> stateFailedWrite], w_claimedPlots = {(0, 0)},
       w_chatMessages = [] \<rparr>"
  unfolding afterFailedWrite_def afterAliceJoins_eq
  by (simp add: buy_seeds_run_def falsy_def getGameState_def isNumber_def SEED_COST_def
      state1_def getDefaultGameState_def alice1_def alice_def getDefaultPlayer_def
      saveGameState_def Let_def stateFailedWrite_def)

lemma reachable_afterFailedWrite: "reachable afterFailedWrite"
  unfolding afterFailedWrite_def using reachable_afterAliceJoins by (rule reachable.failedWrite)



section \<open>What a handler leaves in the store\<close>

lemma list_all_update_first:
  "list_all Q xs \<Longrightarrow> (\<And>x. Q x \<Longrightarrow> Q (f x)) \<Longrightarrow> list_all Q (update_first P f xs)"
  by (induction xs) auto

lemma list_all_splice1: "list_all Q xs \<Longrightarrow> list_all Q (splice1 i xs)"
  by (auto simp: splice1_def list_all_iff dest: in_set_takeD in_set_dropD)

lemma findIndex_Some_lt:
  "findIndex P xs = Some i \<Longrightarrow> i < length xs"
  by (induction xs arbitrary: i) (auto split: if_splits option.splits)

lemma effect_unchanged:
  assumes "responseGameState resp = None \<or> responseGameState resp = getGameState k w"
  shows "handlerEffect failing k w resp w"
  using assms by (simp add: handlerEffect_def)

lemma saved_store:
  "fst (saveGameState gs1 now w) = gs1\<lparr>gs_lastPlayed := now\<rparr>"
  "redis_gameState (snd (saveGameState gs1 now w))
     = (redis_gameState w)(p_id (gs_player gs1) \<mapsto> gs1\<lparr>gs_lastPlayed := now\<rparr>)"
  "redis_player (snd (saveGameState gs1 now w)) = redis_player w"
  by (simp_all add: saveGameState_def Let_def)

lemma derived_stamped:
  "derivedState gs gs1 \<Longrightarrow> derivedState gs (gs1\<lparr>gs_lastPlayed := now\<rparr>)"
  by (simp add: derivedState_def coinsAgree_def soundState_def)

lemma effect_saved:
  assumes "getGameState k w = Some gs" and "derivedState gs gs1"
    and "responseGameState resp = Some (fst (saveGameState gs1 now w))"
    and "w' = snd (saveGameState gs1 now w) \<and> p_coins (gs_player gs1) = p_coins (gs_player gs)
         \<or> w' = savePlayer (gs_player gs1) (snd (saveGameState gs1 now w))
         \<or> w' = saveBiome biome (savePlayer (gs_player gs1) (snd (saveGameState gs1 now w)))"
  shows "handlerEffect False k w resp w'"
proof -
  define gs' where "gs' = gs1\<lparr>gs_lastPlayed := now\<rparr>"
  have p: "gs_player gs1 = gs_player gs'" by (simp add: gs'_def)
  note s = saved_store[of gs1 now w, folded gs'_def, unfolded p]
  have d: "derivedState gs gs'" unfolding gs'_def using assms(2) by (rule derived_stamped)
  have g: "redis_gameState w' = (redis_gameState w)(p_id (gs_player gs') \<mapsto> gs')"
    using assms(4) s(2) by (auto simp: savePlayer_def saveBiome_def)
  have q: "redis_player w' = (redis_player w)(p_id (gs_player gs') \<mapsto> gs_player gs')
           \<or> redis_player w' = redis_player w \<and> p_coins (gs_player gs') = p_coins (gs_player gs)"
    using assms(4) s(3) unfolding p by (auto simp: savePlayer_def saveBiome_def)
  from assms(1,3) d g q show ?thesis
    unfolding handlerEffect_def s(1) by auto
qed

lemma effect_failed:
  assumes "getGameState k w = Some gs" and "derivedState gs gs1"
    and "responseGameState resp = None" and "w' = snd (saveGameState gs1 now w)"
  shows "handlerEffect True k w resp w'"
proof -
  define gs' where "gs' = gs1\<lparr>gs_lastPlayed := now\<rparr>"
  have p: "gs_player gs1 = gs_player gs'" by (simp add: gs'_def)
  note s = saved_store[of gs1 now w, folded gs'_def, unfolded p]
  have d: "derivedState gs gs'" unfolding gs'_def using assms(2) by (rule derived_stamped)
  from assms(1,3,4) d s(2,3) show ?thesis
    unfolding handlerEffect_def by auto
qed

lemma buy_seeds_effect:
  assumes "buy_seeds_run failing postId k treeType q now w = (resp, w')"
  shows "handlerEffect failing k w resp w'"
proof (cases "falsy postId \<or> getGameState k w = None")
  case True
  with assms have "w' = w" "responseGameState resp = None"
    by (auto simp: buy_seeds_run_def Let_def split: if_splits)
  then show ?thesis by (simp add: effect_unchanged)
next
  case False
  then obtain gs where gs: "getGameState k w = Some gs" and np: "\<not> falsy postId" by auto
  define quantity where "quantity = (case q of None \<Rightarrow> 1 | Some q \<Rightarrow> q)"
  define bought where "bought = (\<exists>cost coins' seeds'. isNumber quantity
      \<and> dint (SEED_COST * quantity) = Some cost \<and> \<not> p_coins (gs_player gs) < cost
      \<and> dint (p_coins (gs_player gs) - cost) = Some coins'
      \<and> dint (r_seeds (gs_resources gs) + quantity) = Some seeds')"
  show ?thesis
  proof (cases bought)
    case False
    with assms gs np have "w' = w" "responseGameState resp = None \<or> responseGameState resp = Some gs"
      unfolding bought_def quantity_def
      by (auto simp: buy_seeds_run_def Let_def split: if_splits option.splits)
    with gs show ?thesis by (simp add: effect_unchanged)
  next
    case True
    then obtain cost coins' seeds' where n: "isNumber quantity"
      and c: "dint (SEED_COST * quantity) = Some cost" "\<not> p_coins (gs_player gs) < cost"
        "dint (p_coins (gs_player gs) - cost) = Some coins'"
        "dint (r_seeds (gs_resources gs) + quantity) = Some seeds'"
      unfolding bought_def by blast
    define player where "player = (gs_player gs)\<lparr>p_coins := coins'\<rparr>"
    define gs1 where "gs1 = gs\<lparr>gs_player := player,
        gs_resources := (gs_resources gs)\<lparr>r_coins := p_coins player, r_seeds := seeds'\<rparr>\<rparr>"
    have "0 \<le> coins'" using dint_nonneg[OF c(3)] c(2) by simp
    then have d: "derivedState gs gs1"
      by (simp add: derivedState_def gs1_def player_def coinsAgree_def soundState_def)
    show ?thesis
    proof (cases failing)
      case True
      have "responseGameState resp = None" "w' = snd (saveGameState gs1 now w)"
        using assms gs np n c True unfolding gs1_def player_def quantity_def
        by (auto simp: buy_seeds_run_def Let_def case_prod_beta)
      from effect_failed[OF gs d this] True show ?thesis by simp
    next
      case False
      have r: "responseGameState resp = Some (fst (saveGameState gs1 now w))"
        "w' = savePlayer (gs_player gs1) (snd (saveGameState gs1 now w))"
        using assms gs np n c False unfolding gs1_def player_def quantity_def
        by (auto simp: buy_seeds_run_def Let_def case_prod_beta)
      from effect_saved[OF gs d r(1)] r(2) False show ?thesis by simp
    qed
  qed
qed

lemma harvest_effect:
  assumes "api_harvest_tree postId k treeId now random w = (resp, w')"
  shows "handlerEffect False k w resp w'"
proof (cases "falsy postId \<or> getGameState k w = None")
  case True
  with assms have "w' = w" "responseGameState resp = None"
    by (auto simp: api_harvest_tree_def split: if_splits)
  then show ?thesis by (simp add: effect_unchanged)
next
  case False
  then obtain gs where gs: "getGameState k w = Some gs" and np: "\<not> falsy postId" by auto
  show ?thesis
  proof (cases "findIndex (\<lambda>t. t_id t = treeId) (gs_trees gs)")
    case None
    with assms gs np have "w' = w" "responseGameState resp = None"
      by (auto simp: api_harvest_tree_def)
    then show ?thesis by (simp add: effect_unchanged)
  next
    case (Some i)
    show ?thesis
    proof (cases "t_growthStage (gs_trees gs ! i) < 5")
      case True
      with assms gs np Some have "w' = w" "responseGameState resp = Some gs"
        by (auto simp: api_harvest_tree_def)
      with gs show ?thesis by (simp add: effect_unchanged)
    next
      case False
      define coins where "coins = \<lfloor>fl (real_of_int (baseReward (t_type (gs_trees gs ! i)))
                                     * fl (real_of_int (t_health (gs_trees gs ! i)) / 100))\<rfloor>"
      define player1 where "player1 = (gs_player gs)\<lparr>p_coins := num (p_coins (gs_player gs) + coins),
           p_experience := num (p_experience (gs_player gs) + \<lfloor>fl (real_of_int coins * (1 / 2))\<rfloor>)\<rparr>"
      define newA where "newA = checkAchievements player1 ''harvest_tree''
                                  (Some (int (length (splice1 i (gs_trees gs))))) now"
      define player where "player = player1\<lparr>p_achievements := p_achievements player1 @ newA\<rparr>"
      define gs1 where "gs1 = gs\<lparr>gs_player := player, gs_trees := splice1 i (gs_trees gs),
        gs_resources := (gs_resources gs)\<lparr>r_coins := p_coins player1,
                           r_seeds := num (r_seeds (gs_resources gs) + (\<lfloor>fl (random * 3)\<rfloor> + 1))\<rparr>\<rparr>"
      have r: "responseGameState resp = Some (fst (saveGameState gs1 now w))"
        "w' = savePlayer (gs_player gs1) (snd (saveGameState gs1 now w))"
        using assms gs np Some False
        unfolding gs1_def player_def player1_def newA_def coins_def
        by (auto simp: api_harvest_tree_def Let_def case_prod_beta)
      have "i < length (gs_trees gs)" using Some by (rule findIndex_Some_lt)
      then have "\<not> list_all asPlanted (gs_trees gs)"
        using False by (auto simp: list_all_length asPlanted_def)
      then have "derivedState gs gs1"
        by (simp add: derivedState_def gs1_def player_def player1_def coinsAgree_def soundState_def)
      from effect_saved[OF gs this] r show ?thesis by blast
    qed
  qed
qed

lemma water_effect:
  assumes "api_water_tree postId k treeId now w = (resp, w')"
  shows "handlerEffect False k w resp w'"
proof (cases "falsy postId \<or> getGameState k w = None")
  case True
  with assms have "w' = w" "responseGameState resp = None"
    by (auto simp: api_water_tree_def split: if_splits)
  then show ?thesis by (simp add: effect_unchanged)
next
  case False
  then obtain gs where gs: "getGameState k w = Some gs" and np: "\<not> falsy postId" by auto
  show ?thesis
  proof (cases "r_water (gs_resources gs) \<le> 0 \<or> find (\<lambda>t. t_id t = treeId) (gs_trees gs) = None")
    case True
    with assms gs np have "w' = w" "responseGameState resp = Some gs"
      by (auto simp: api_water_tree_def split: if_splits)
    with gs show ?thesis by (simp add: effect_unchanged)
  next
    case False
    then obtain tree where tree: "find (\<lambda>t. t_id t = treeId) (gs_trees gs) = Some tree"
      and wat: "\<not> r_water (gs_resources gs) \<le> 0" by auto
    define gs1 where "gs1 = gs\<lparr>gs_player := (gs_player gs)\<lparr>p_experience := num (p_experience (gs_player gs) + 5)\<rparr>,
        gs_trees := update_first (\<lambda>t. t_id t = treeId)
                      (\<lambda>t. t\<lparr>t_lastWatered := now, t_health := min 100 (num (t_health t + 20))\<rparr>) (gs_trees gs),
        gs_resources := (gs_resources gs)\<lparr>r_water := num (r_water (gs_resources gs) - 1)\<rparr>\<rparr>"
    have r: "responseGameState resp = Some (fst (saveGameState gs1 now w))"
      "w' = snd (saveGameState gs1 now w)"
      using assms gs np tree wat unfolding gs1_def
      by (auto simp: api_water_tree_def Let_def case_prod_beta)
    have "list_all asPlanted (gs_trees gs) \<Longrightarrow> list_all asPlanted (gs_trees gs1)"
      unfolding gs1_def
      by (auto intro!: list_all_update_first simp: asPlanted_def num_nonneg)
    then have d: "derivedState gs gs1"
      by (auto simp: derivedState_def coinsAgree_def soundState_def gs1_def)
    have "p_coins (gs_player gs1) = p_coins (gs_player gs)" by (simp add: gs1_def)
    with effect_saved[OF gs d r(1)] r(2) show ?thesis by blast
  qed
qed

lemma move_effect:
  assumes "api_move_player k x y z now w = (resp, w')"
  shows "handlerEffect False k w resp w'"
proof (cases "getGameState k w")
  case None
  with assms have "w' = w" "responseGameState resp = None"
    by (auto simp: api_move_player_def)
  then show ?thesis by (simp add: effect_unchanged)
next
  case (Some gs)
  define player where "player = (gs_player gs)\<lparr>p_position := \<lparr> pos_x = x, pos_y = y, pos_z = z \<rparr>\<rparr>"
  define biome' where "biome' = (case findIndex (\<lambda>p. p_id p = p_id player) (b_players (gs_currentBiome gs)) of
                           None \<Rightarrow> gs_currentBiome gs
                         | Some biomePlayerIndex \<Rightarrow>
                             (gs_currentBiome gs)\<lparr>b_players := (b_players (gs_currentBiome gs))[biomePlayerIndex := player]\<rparr>)"
  define gs1 where "gs1 = gs\<lparr>gs_player := player, gs_currentBiome := biome'\<rparr>"
  have r: "responseGameState resp = Some (fst (saveGameState gs1 now w))"
    "w' = saveBiome biome' (savePlayer (gs_player gs1) (snd (saveGameState gs1 now w)))"
    using assms Some unfolding gs1_def biome'_def player_def
    by (auto simp: api_move_player_def Let_def case_prod_beta)
  have "derivedState gs gs1"
    by (simp add: derivedState_def coinsAgree_def soundState_def gs1_def player_def)
  from effect_saved[OF Some this] r show ?thesis by blast
qed

lemma buy_land_effect:
  assumes "api_buy_land postId k x z now newId w = (resp, w')"
  shows "handlerEffect False k w resp w'"
proof (cases "falsy postId \<or> getGameState k w = None")
  case True
  with assms have "w' = w" "responseGameState resp = None"
    by (auto simp: api_buy_land_def split: if_splits)
  then show ?thesis by (simp add: effect_unchanged)
next
  case False
  then obtain gs where gs: "getGameState k w = Some gs" and np: "\<not> falsy postId" by auto
  show ?thesis
  proof (cases "find (\<lambda>plot. absDiffBelow (lp_x plot) x 10 \<and> absDiffBelow (lp_z plot) z 10)
                  (b_landPlots (gs_currentBiome gs)) \<noteq> None
                \<or> p_coins (gs_player gs) < LAND_PLOT_COST")
    case True
    with assms gs np have "w' = w" "responseGameState resp = Some gs"
      by (auto simp: api_buy_land_def Let_def split: if_splits option.splits)
    with gs show ?thesis by (simp add: effect_unchanged)
  next
    case False
    define newLandPlot where "newLandPlot = \<lparr> lp_id = newId, lp_x = x, lp_z = z,
        lp_ownerId = p_id (gs_player gs), lp_biomeType = b_type (gs_currentBiome gs),
        lp_trees = [], lp_purchasedAt = now, lp_price = LAND_PLOT_COST \<rparr>"
    define biome' where "biome' = (gs_currentBiome gs)
        \<lparr>b_landPlots := b_landPlots (gs_currentBiome gs) @ [newLandPlot]\<rparr>"
    define player1 where "player1 = (gs_player gs)
        \<lparr>p_landPlots := p_landPlots (gs_player gs) @ [lp_id newLandPlot],
         p_coins := num (p_coins (gs_player gs) - LAND_PLOT_COST)\<rparr>"
    define player where "player = player1\<lparr>p_achievements := p_achievements player1 @
        checkAchievements player1 ''buy_land'' (Some (int (length (p_landPlots player1)))) now\<rparr>"
    define gs1 where "gs1 = gs\<lparr>gs_player := player, gs_currentBiome := biome',
        gs_resources := (gs_resources gs)\<lparr>r_coins := p_coins player1\<rparr>\<rparr>"
    have r: "responseGameState resp = Some (fst (saveGameState gs1 now w))"
      "w' = saveBiome biome' (savePlayer (gs_player gs1) (snd (saveGameState gs1 now w)))"
      using assms gs np False unfolding gs1_def player_def player1_def biome'_def newLandPlot_def
      by (auto simp: api_buy_land_def Let_def case_prod_beta)
    have "0 \<le> num (p_coins (gs_player gs) - LAND_PLOT_COST)"
      using False by (intro num_nonneg) simp
    then have "derivedState gs gs1"
      by (simp add: derivedState_def coinsAgree_def soundState_def gs1_def player_def player1_def)
    from effect_saved[OF gs this] r show ?thesis by blast
  qed
qed

lemma plant_tree_effect:
  assumes "api_plant_tree postId k treeType x z now newId w = (resp, w')"
  shows "handlerEffect False k w resp w'"
proof (cases "falsy postId \<or> getGameState k w = None")
  case True
  with assms have "w' = w" "responseGameState resp = None"
    by (auto simp: api_plant_tree_def split: if_splits)
  then show ?thesis by (simp add: effect_unchanged)
next
  case False
  then obtain gs where gs: "getGameState k w = Some gs" and np: "\<not> falsy postId" by auto
  define onOwnLand :: "LandPlot \<Rightarrow> bool" where
    "onOwnLand = (\<lambda>plot. absDiffBelow (lp_x plot) x 5 \<and> absDiffBelow (lp_z plot) z 5
                          \<and> lp_ownerId plot = p_id (gs_player gs))"
  show ?thesis
  proof (cases "find onOwnLand (b_landPlots (gs_currentBiome gs))")
    case None
    with assms gs np have "w' = w" "responseGameState resp = Some gs"
      by (auto simp: api_plant_tree_def Let_def onOwnLand_def)
    with gs show ?thesis by (simp add: effect_unchanged)
  next
    case (Some landPlot)
    show ?thesis
    proof (cases "length (lp_trees landPlot) \<ge> MAX_TREES_PER_PLOT \<or> r_seeds (gs_resources gs) \<le> 0")
      case True
      with assms gs np Some have "w' = w" "responseGameState resp = Some gs"
        by (auto simp: api_plant_tree_def Let_def onOwnLand_def split: if_splits)
      with gs show ?thesis by (simp add: effect_unchanged)
    next
      case False
      define newTree where "newTree = \<lparr> t_id = newId, t_type = treeType, t_x = x, t_y = 0,
                                      t_z = z, t_growthStage = 0, t_plantedAt = now,
                                      t_lastWatered = now, t_health = 100,
                                      t_ownerId = p_id (gs_player gs) \<rparr>"
      define biome' where "biome' = (gs_currentBiome gs)\<lparr>b_landPlots :=
                                    update_first onOwnLand
                                      (\<lambda>plot. plot\<lparr>lp_trees := lp_trees plot @ [t_id newTree]\<rparr>)
                                      (b_landPlots (gs_currentBiome gs))\<rparr>"
      define player1 where "player1 = (gs_player gs)\<lparr>p_experience := num (p_experience (gs_player gs) + 10)\<rparr>"
      define player where "player = player1\<lparr>p_achievements := p_achievements player1 @
          checkAchievements player1 ''plant_tree'' (Some (int (length (gs_trees gs @ [newTree])))) now\<rparr>"
      define gs1 where "gs1 = gs\<lparr>gs_player := player, gs_currentBiome := biome',
          gs_trees := gs_trees gs @ [newTree],
          gs_resources := (gs_resources gs)\<lparr>r_seeds := num (r_seeds (gs_resources gs) - 1)\<rparr>\<rparr>"
      have r: "responseGameState resp = Some (fst (saveGameState gs1 now w))"
        "w' = saveBiome biome' (savePlayer (gs_player gs1) (snd (saveGameState gs1 now w)))"
        using assms gs np False Some
        unfolding gs1_def player_def player1_def biome'_def newTree_def onOwnLand_def
        by (auto simp: api_plant_tree_def Let_def case_prod_beta)
      have "derivedState gs gs1"
        by (simp add: derivedState_def coinsAgree_def soundState_def gs1_def player_def player1_def
            newTree_def asPlanted_def)
      from effect_saved[OF gs this] r show ?thesis by blast
    qed
  qed
qed

lemma perform_effect:
  assumes "perform postId now newId random a w = (resp, w')" and "\<And>u. a \<noteq> Init u"
  shows "handlerEffect False (actor a) w resp w'"
proof (cases a)
  case (Init u)
  with assms(2)[of u] show ?thesis by simp
next
  case (PlantTree k ty x z)
  with assms(1) plant_tree_effect[of postId k ty x z now newId w resp w'] show ?thesis by simp
next
  case (BuyLand k x z)
  with assms(1) buy_land_effect[of postId k x z now newId w resp w'] show ?thesis by simp
next
  case (MovePlayer k x y z)
  with assms(1) move_effect[of k x y z now w resp w'] show ?thesis by simp
next
  case (WaterTree k t)
  with assms(1) water_effect[of postId k t now w resp w'] show ?thesis by simp
next
  case (HarvestTree k t)
  with assms(1) harvest_effect[of postId k t now random w resp w'] show ?thesis by simp
next
  case (BuySeeds k ty q)
  with assms(1) buy_seeds_effect[of False postId k ty q now w resp w'] show ?thesis
    by (simp add: api_buy_seeds_def)
qed

lemma init_finish_effect:
  assumes "init_finish username player biome now w = (resp, w')"
  shows "\<exists>gs'. responseGameState resp = Some gs' \<and> gs_player gs' = player
           \<and> redis_gameState w' = (redis_gameState w)(p_id player \<mapsto> gs')
           \<and> redis_player w' = redis_player w
           \<and> (case getGameState (p_id player) w of
                 None \<Rightarrow> coinsAgree gs' \<and> gs_trees gs' = []
               | Some gs \<Rightarrow> r_coins (gs_resources gs') = r_coins (gs_resources gs)
                           \<and> gs_trees gs' = gs_trees gs)"
  using assms
  by (auto simp: init_finish_def getGameState_def saveGameState_def Let_def coinsAgree_def
      getDefaultGameState_def split: option.splits)

lemma allocateStartingLand_keeps_identity:
  assumes "allocateStartingLand player biome now newId claimed = Inr (player', biome', claimed')"
  shows "p_id player' = p_id player \<and> p_coins player' = p_coins player"
  using assms
  by (auto simp: allocateStartingLand_def Let_def split: option.splits prod.splits if_splits)

lemma init_effect:
  assumes "api_init u now newId w = (resp, w')"
  shows "(responseGameState resp = None \<and> redis_player w' = redis_player w
          \<and> redis_gameState w' = redis_gameState w)
       \<or> (\<exists>player gs'. p_id player = p_id (initPlayer u now w)
             \<and> p_coins player = p_coins (initPlayer u now w)
             \<and> responseGameState resp = Some gs' \<and> gs_player gs' = player
             \<and> redis_gameState w' = (redis_gameState w)(p_id player \<mapsto> gs')
             \<and> redis_player w' = (redis_player w)(p_id player \<mapsto> player)
             \<and> (case getGameState (p_id player) w of
                   None \<Rightarrow> coinsAgree gs' \<and> gs_trees gs' = []
                 | Some gs \<Rightarrow> r_coins (gs_resources gs') = r_coins (gs_resources gs)
                             \<and> gs_trees gs' = gs_trees gs))"
proof -
  define username where "username = actor (Init u)"
  define biome where "biome = (case getBiome ''massive_world'' w of None \<Rightarrow> getDefaultBiome | Some b \<Rightarrow> b)"
  define w1 where "w1 = (case getBiome ''massive_world'' w of None \<Rightarrow> saveBiome biome w | Some b \<Rightarrow> w)"
  have w1p: "redis_player w1 = redis_player w" and w1g: "redis_gameState w1 = redis_gameState w"
    by (simp_all add: w1_def saveBiome_def split: option.splits)
  have unfold: "api_init u now newId w =
      (case getPlayer username w1 of
           None \<Rightarrow>
             (case allocateStartingLand (getDefaultPlayer username now) biome now newId
                     (w_claimedPlots w1) of
                Inl msg \<Rightarrow> (ErrorResponse 400 (''Initialization failed: '' @ msg), w1)
              | Inr (player, biomeA, claimed) \<Rightarrow>
                  (let biome' = biomeA\<lparr>b_players := b_players biomeA @ [player]\<rparr>;
                       w2 = saveBiome biome' (savePlayer player (w1\<lparr>w_claimedPlots := claimed\<rparr>))
                   in init_finish username player biome' now w2))
         | Some stored \<Rightarrow>
             (let player = stored\<lparr>p_lastActive := now\<rparr>
              in init_finish username player biome now (savePlayer player w1)))"
    unfolding api_init_def username_def biome_def w1_def Let_def actor.simps ..
  have gp: "getPlayer username w1 = getPlayer username w"
    by (simp add: getPlayer_def w1p)
  show ?thesis
  proof (cases "getPlayer username w")
    case None
    then have ip: "initPlayer u now w = getDefaultPlayer username now"
      by (simp add: initPlayer_def username_def)
    show ?thesis
    proof (cases "allocateStartingLand (getDefaultPlayer username now) biome now newId (w_claimedPlots w1)")
      case (Inl msg)
      with None gp unfold assms have "resp = ErrorResponse 400 (''Initialization failed: '' @ msg)" "w' = w1"
        by simp_all
      with w1p w1g show ?thesis by simp
    next
      case (Inr r)
      obtain player biomeA claimed where r: "r = (player, biomeA, claimed)" by (cases r) auto
      from Inr r allocateStartingLand_keeps_identity
      have pid: "p_id player = p_id (getDefaultPlayer username now)"
        "p_coins player = p_coins (getDefaultPlayer username now)"
        by fastforce+
      define w2 where "w2 = saveBiome (biomeA\<lparr>b_players := b_players biomeA @ [player]\<rparr>)
                               (savePlayer player (w1\<lparr>w_claimedPlots := claimed\<rparr>))"
      have fin: "init_finish username player (biomeA\<lparr>b_players := b_players biomeA @ [player]\<rparr>) now w2 = (resp, w')"
        using None gp Inr r unfold assms by (simp add: w2_def Let_def)
      have p2: "redis_player w2 = (redis_player w)(p_id player \<mapsto> player)"
        and g2: "redis_gameState w2 = redis_gameState w"
        by (simp_all add: w2_def saveBiome_def savePlayer_def w1p w1g)
      from init_finish_effect[OF fin] pid show ?thesis
        unfolding ip p2 g2 getGameState_def by auto
    qed
  next
    case (Some stored)
    then have ip: "initPlayer u now w = stored"
      by (simp add: initPlayer_def username_def)
    define player where "player = stored\<lparr>p_lastActive := now\<rparr>"
    have pid: "p_id player = p_id stored" "p_coins player = p_coins stored"
      by (simp_all add: player_def)
    have fin: "init_finish username player biome now (savePlayer player w1) = (resp, w')"
      using Some gp unfold assms by (simp add: player_def Let_def)
    have p2: "redis_player (savePlayer player w1) = (redis_player w)(p_id player \<mapsto> player)"
      and g2: "redis_gameState (savePlayer player w1) = redis_gameState w"
      by (simp_all add: savePlayer_def w1p w1g)
    from init_finish_effect[OF fin] pid show ?thesis
      unfolding ip p2 g2 getGameState_def by auto
  qed
qed

section \<open>Coins of the wallet and of the player\<close>

lemma effect_coins:
  assumes "handlerEffect failing k w resp w'"
    and "case getGameState k w of None \<Rightarrow> True | Some gs \<Rightarrow> coinsAgree gs"
  shows "responseCoinsAgree resp \<and> writtenCoinsAgree w w'"
  using assms
  by (auto simp: handlerEffect_def derivedState_def responseCoinsAgree_def writtenCoinsAgree_def
      split: if_splits)

lemma init_coins:
  assumes "api_init u now newId w = (resp, w')"
    and "loadedCoinsAgree now (Init u) w" and "initRecordAgrees now (Init u) w"
  shows "responseCoinsAgree resp \<and> writtenCoinsAgree w w'"
  using init_effect[OF assms(1)] assms(2,3)
  by (auto simp: loadedCoinsAgree_def responseCoinsAgree_def writtenCoinsAgree_def coinsAgree_def
      split: option.splits)

lemma perform_keeps_coins:
  assumes "perform postId now newId random a w = (resp, w')"
    and "loadedCoinsAgree now a w" and "initRecordAgrees now a w"
  shows "responseCoinsAgree resp \<and> writtenCoinsAgree w w'"
proof (cases "\<exists>u. a = Init u")
  case True
  with assms init_coins show ?thesis by auto
next
  case False
  then have "loadedGameState now a w = getGameState (actor a) w" by (cases a) simp_all
  with effect_coins[OF perform_effect[OF assms(1)]] False assms(2) show ?thesis
    by (simp add: loadedCoinsAgree_def)
qed

text \<open>
  Claim C3, as amended. For every action (init, move, plant, water, harvest, buy-seeds,
  buy-land): if \<open>resources.coins = player.coins\<close> holds in the game state that the action
  loads, and, for init only, the Player record that init reads carries the balance of
  that game state's player, then \<open>resources.coins = player.coins\<close> holds in the game
  state that the action returns and in every game state that it persists. For the six
  actions other than init this is the claim as it stands.
\<close>

theorem coins_kept_by_every_action:
  assumes "perform postId now newId random a w = (resp, w')"
    and "loadedCoinsAgree now a w" and "initRecordAgrees now a w"
  shows "responseCoinsAgree resp \<and> writtenCoinsAgree w w'"
  using assms by (rule perform_keeps_coins)

text \<open>
  Claim C3 does not hold as stated for init: init replaces the player of the loaded game
  state by the separately stored Player record and leaves the wallet alone. The two
  records differ after a seed purchase whose second write has failed: \<open>alice\<close> joins and
  buys five seeds, the game state is stored with 150 coins in both places, the write of
  the Player record fails and the record keeps 200 coins. The stored game state has
  equal coins; the game state that the next init of \<open>alice\<close> returns and persists has 150
  coins in the wallet and 200 on the player.
\<close>

theorem init_takes_coins_from_player_record:
  "reachable afterFailedWrite
   \<and> loadedCoinsAgree 2000 (Init (Some ''alice'')) afterFailedWrite
   \<and> \<not> responseCoinsAgree
         (fst (perform None 2000 ''land_9'' 0 (Init (Some ''alice'')) afterFailedWrite))
   \<and> map_option coinsAgree
        (getGameState ''alice''
           (snd (perform None 2000 ''land_9'' 0 (Init (Some ''alice'')) afterFailedWrite)))
       = Some False"
  using reachable_afterFailedWrite unfolding afterFailedWrite_eq
  by (simp add: loadedCoinsAgree_def initPlayer_def responseCoinsAgree_def
      api_init_def init_finish_def getGameState_def getPlayer_def getBiome_def saveBiome_def
      savePlayer_def saveGameState_def stateFailedWrite_def state1_def alice1_def alice_def
      getDefaultPlayer_def getDefaultGameState_def coinsAgree_def Let_def)

theorem coins_kept_by_every_action_witness:
  "loadedCoinsAgree 2000 (Init (Some ''alice'')) afterAliceJoins
   \<and> initRecordAgrees 2000 (Init (Some ''alice'')) afterAliceJoins
   \<and> responseCoinsAgree (fst (perform None 2000 ''land_9'' 0 (Init (Some ''alice'')) afterAliceJoins))
   \<and> writtenCoinsAgree afterAliceJoins
        (snd (perform None 2000 ''land_9'' 0 (Init (Some ''alice'')) afterAliceJoins))
   \<and> map_option coinsAgree (responseGameState
        (fst (perform None 2000 ''land_9'' 0 (Init (Some ''alice'')) afterAliceJoins))) = Some True"
proof -
  have a: "loadedCoinsAgree 2000 (Init (Some ''alice'')) afterAliceJoins"
    and b: "initRecordAgrees 2000 (Init (Some ''alice'')) afterAliceJoins"
    unfolding afterAliceJoins_eq
    by (simp_all add: loadedCoinsAgree_def initPlayer_def getPlayer_def getGameState_def
        state1_def alice1_def alice_def getDefaultPlayer_def getDefaultGameState_def coinsAgree_def)
  have c: "responseGameState
        (fst (perform None 2000 ''land_9'' 0 (Init (Some ''alice'')) afterAliceJoins)) \<noteq> None"
    unfolding afterAliceJoins_eq
    by (simp add: api_init_def init_finish_def getGameState_def getPlayer_def getBiome_def
        saveGameState_def savePlayer_def Let_def case_prod_beta)
  from coins_kept_by_every_action[where postId = None and now = 2000 and newId = "''land_9''"
      and random = 0 and a = "Init (Some ''alice'')" and w = afterAliceJoins,
      OF surjective_pairing a b] a b c
  show ?thesis
    by (auto simp: responseCoinsAgree_def)
qed

section \<open>Reachable worlds\<close>

lemma effect_sound:
  assumes "handlerEffect failing k w resp w'" and "\<And>j. soundRecords w j"
  shows "soundRecords w' j"
proof -
  from assms(1) consider
    (keep) "redis_player w' = redis_player w" "redis_gameState w' = redis_gameState w"
  | (store) gs gs' where "getGameState k w = Some gs" "derivedState gs gs'"
      "redis_gameState w' = (redis_gameState w)(p_id (gs_player gs') \<mapsto> gs')"
      "redis_player w' = redis_player w
       \<or> redis_player w' = (redis_player w)(p_id (gs_player gs') \<mapsto> gs_player gs')"
    unfolding handlerEffect_def by (auto split: if_splits)
  then show ?thesis
  proof cases
    case keep
    with assms(2)[of j] show ?thesis by (simp add: soundRecords_def)
  next
    case store
    from assms(2)[of k] store(1) have "p_id (gs_player gs) = k" "soundState gs"
      by (simp_all add: soundRecords_def getGameState_def)
    with store(2) have d: "p_id (gs_player gs') = k" "soundState gs'"
      by (simp_all add: derivedState_def)
    from store(3,4) d assms(2)[of j] show ?thesis
      by (auto simp: soundRecords_def soundState_def)
  qed
qed

lemma init_sound:
  assumes "api_init u now newId w = (resp, w')" and "\<And>j. soundRecords w j"
  shows "soundRecords w' j"
proof -
  define k where "k = actor (Init u)"
  have "initPlayer u now w = (case getPlayer k w of None \<Rightarrow> getDefaultPlayer k now | Some stored \<Rightarrow> stored)"
    by (simp only: initPlayer_def k_def)
  with assms(2)[of k] have ip: "p_id (initPlayer u now w) = k \<and> 0 \<le> p_coins (initPlayer u now w)"
    by (auto simp: getPlayer_def soundRecords_def getDefaultPlayer_def split: option.splits)
  from init_effect[OF assms(1)] show ?thesis
  proof (elim disjE exE conjE)
    assume "redis_player w' = redis_player w" "redis_gameState w' = redis_gameState w"
    with assms(2)[of j] show ?thesis by (simp add: soundRecords_def)
  next
    fix player gs'
    assume a: "p_id player = p_id (initPlayer u now w)" "p_coins player = p_coins (initPlayer u now w)"
      "gs_player gs' = player"
      "redis_gameState w' = (redis_gameState w)(p_id player \<mapsto> gs')"
      "redis_player w' = (redis_player w)(p_id player \<mapsto> player)"
      "case getGameState (p_id player) w of
         None \<Rightarrow> coinsAgree gs' \<and> gs_trees gs' = []
       | Some gs \<Rightarrow> r_coins (gs_resources gs') = r_coins (gs_resources gs) \<and> gs_trees gs' = gs_trees gs"
    have t: "list_all asPlanted (gs_trees gs')"
      using a(6) assms(2)[of "p_id player"]
      by (auto simp: getGameState_def soundRecords_def soundState_def split: option.splits)
    from a(1-5) ip t assms(2)[of j] show ?thesis
      by (auto simp: soundRecords_def soundState_def)
  qed
qed

lemma sound_invariant:
  assumes "reachable w"
  shows "soundRecords w j"
  using assms
proof (induction arbitrary: j rule: reachable.induct)
  case start
  show ?case by (simp add: soundRecords_def emptyWorld_def)
next
  case (step w postId now newId random a)
  show ?case
  proof (cases "\<exists>u. a = Init u")
    case True
    then obtain u where "a = Init u" by blast
    with init_sound[of u now newId w "fst (api_init u now newId w)" "snd (api_init u now newId w)"]
      step.IH show ?thesis by simp
  next
    case False
    with perform_effect[of postId now newId random a w] 
    have "handlerEffect False (actor a) w (fst (perform postId now newId random a w))
            (snd (perform postId now newId random a w))" by simp
    from effect_sound[OF this] step.IH show ?thesis by simp
  qed
next
  case (failedWrite w postId playerId treeType quantityField now)
  have "handlerEffect True playerId w (fst (buy_seeds_run True postId playerId treeType quantityField now w))
          (snd (buy_seeds_run True postId playerId treeType quantityField now w))"
    by (rule buy_seeds_effect) simp
  from effect_sound[OF this] failedWrite.IH show ?case by simp
qed

lemma reachable_state:
  assumes "reachable w" and "getGameState k w = Some gs"
  shows "p_id (gs_player gs) = k" and "0 \<le> p_coins (gs_player gs)"
    and "list_all asPlanted (gs_trees gs)"
  using sound_invariant[OF assms(1), of k] assms(2)
  by (simp_all add: soundRecords_def soundState_def getGameState_def)

text \<open>
  Without a failing write the two records of a player stay paired: the stored game state
  has equal coins and the Player record carries its balance.
\<close>

lemma effect_paired:
  assumes "handlerEffect False k w resp w'" and "\<And>j. soundRecords w j"
    and "\<And>j. recordsPaired w j"
  shows "recordsPaired w' j"
proof -
  from assms(1) consider
    (keep) "redis_player w' = redis_player w" "redis_gameState w' = redis_gameState w"
  | (store) gs gs' where "getGameState k w = Some gs" "derivedState gs gs'"
      "redis_gameState w' = (redis_gameState w)(p_id (gs_player gs') \<mapsto> gs')"
      "redis_player w' = (redis_player w)(p_id (gs_player gs') \<mapsto> gs_player gs')
       \<or> redis_player w' = redis_player w \<and> p_coins (gs_player gs') = p_coins (gs_player gs)"
    unfolding handlerEffect_def by auto
  then show ?thesis
  proof cases
    case keep
    from assms(3)[of j] show ?thesis unfolding recordsPaired_def keep .
  next
    case store
    from assms(2)[of k] store(1) have "p_id (gs_player gs) = k"
      by (simp add: soundRecords_def getGameState_def)
    with store(2) have d: "p_id (gs_player gs') = k" by (simp add: derivedState_def)
    from assms(3)[of k] store(1) have a: "coinsAgree gs"
      "case redis_player w k of None \<Rightarrow> False | Some p \<Rightarrow> p_coins p = p_coins (gs_player gs)"
      by (simp_all add: recordsPaired_def getGameState_def)
    from a(1) store(2) have c: "coinsAgree gs'" by (simp add: derivedState_def)
    show ?thesis
    proof (cases "j = k")
      case True
      have g: "redis_gameState w' k = Some gs'" using store(3) d by simp
      from store(4)
      have p: "case redis_player w' k of None \<Rightarrow> False
               | Some p \<Rightarrow> p_coins p = p_coins (gs_player gs')"
      proof
        assume "redis_player w' = (redis_player w)(p_id (gs_player gs') \<mapsto> gs_player gs')"
        then have "redis_player w' k = Some (gs_player gs')" using d by simp
        then show ?thesis by simp
      next
        assume "redis_player w' = redis_player w \<and> p_coins (gs_player gs') = p_coins (gs_player gs)"
        with a(2) show ?thesis by (auto split: option.splits)
      qed
      show ?thesis unfolding recordsPaired_def True g using c p by simp
    next
      case False
      have e: "redis_gameState w' j = redis_gameState w j" "redis_player w' j = redis_player w j"
        using store(3,4) d False by auto
      from assms(3)[of j] show ?thesis unfolding recordsPaired_def e .
    qed
  qed
qed

lemma init_paired:
  assumes "api_init u now newId w = (resp, w')" and "\<And>j. soundRecords w j"
    and "\<And>j. recordsPaired w j"
  shows "recordsPaired w' j"
proof -
  define k where "k = actor (Init u)"
  have i: "initPlayer u now w = (case getPlayer k w of None \<Rightarrow> getDefaultPlayer k now | Some stored \<Rightarrow> stored)"
    by (simp only: initPlayer_def k_def)
  with assms(2)[of k] have ip: "p_id (initPlayer u now w) = k"
    by (auto simp: getPlayer_def soundRecords_def getDefaultPlayer_def split: option.splits)
  from init_effect[OF assms(1)] show ?thesis
  proof (elim disjE exE conjE)
    assume e: "redis_player w' = redis_player w" "redis_gameState w' = redis_gameState w"
    from assms(3)[of j] show ?thesis unfolding recordsPaired_def e .
  next
    fix player gs'
    assume a: "p_id player = p_id (initPlayer u now w)" "p_coins player = p_coins (initPlayer u now w)"
      "gs_player gs' = player"
      "redis_gameState w' = (redis_gameState w)(p_id player \<mapsto> gs')"
      "redis_player w' = (redis_player w)(p_id player \<mapsto> player)"
      "case getGameState (p_id player) w of
         None \<Rightarrow> coinsAgree gs' \<and> gs_trees gs' = []
       | Some gs \<Rightarrow> r_coins (gs_resources gs') = r_coins (gs_resources gs) \<and> gs_trees gs' = gs_trees gs"
    have pk: "p_id player = k" using a(1) ip by simp
    have c: "coinsAgree gs'"
    proof (cases "getGameState k w")
      case None
      with a(6) pk show ?thesis by simp
    next
      case (Some gs)
      with assms(3)[of k] obtain p where p: "coinsAgree gs" "redis_player w k = Some p"
        "p_coins p = p_coins (gs_player gs)"
        by (auto simp: recordsPaired_def getGameState_def split: option.splits)
      from p(2) i have "initPlayer u now w = p" by (simp add: getPlayer_def)
      with a(2,3,6) pk Some p(1,3) show ?thesis by (simp add: coinsAgree_def)
    qed
    show ?thesis
    proof (cases "j = k")
      case True
      have g: "redis_gameState w' k = Some gs'" "redis_player w' k = Some (gs_player gs')"
        using a(3-5) pk by simp_all
      show ?thesis unfolding recordsPaired_def True g using c by simp
    next
      case False
      have e: "redis_gameState w' j = redis_gameState w j" "redis_player w' j = redis_player w j"
        using a(4,5) pk False by auto
      from assms(3)[of j] show ?thesis unfolding recordsPaired_def e .
    qed
  qed
qed

lemma unfailing_reachable:
  assumes "reachableUnfailing w"
  shows "reachable w"
  using assms by (induction rule: reachableUnfailing.induct) (auto intro: reachable.intros)

lemma paired_invariant:
  assumes "reachableUnfailing w"
  shows "recordsPaired w j"
  using assms
proof (induction arbitrary: j rule: reachableUnfailing.induct)
  case start
  show ?case by (simp add: recordsPaired_def emptyWorld_def)
next
  case (step w postId now newId random a)
  have sound: "\<And>j. soundRecords w j"
    using sound_invariant[OF unfailing_reachable[OF step.hyps]] .
  show ?case
  proof (cases "\<exists>u. a = Init u")
    case True
    then obtain u where "a = Init u" by blast
    with init_paired[of u now newId w "fst (api_init u now newId w)" "snd (api_init u now newId w)"]
      sound step.IH show ?thesis by simp
  next
    case False
    with perform_effect[of postId now newId random a w]
    have "handlerEffect False (actor a) w (fst (perform postId now newId random a w))
            (snd (perform postId now newId random a w))" by simp
    from effect_paired[OF this] sound step.IH show ?thesis by simp
  qed
qed

text \<open>
  So in a world produced without a failing write both hypotheses of the coin property
  hold for every action, and the game state that an action returns and the game states
  that it persists have equal coins.
\<close>

lemma unfailing_hypotheses:
  assumes "reachableUnfailing w"
  shows "loadedCoinsAgree now a w" and "initRecordAgrees now a w"
proof -
  have sound: "\<And>j. soundRecords w j"
    using sound_invariant[OF unfailing_reachable[OF assms]] .
  have paired: "\<And>j. recordsPaired w j" using paired_invariant[OF assms] .
  have l: "case getGameState j w of None \<Rightarrow> True | Some gs \<Rightarrow> coinsAgree gs" for j
    using paired[of j] by (simp add: recordsPaired_def getGameState_def split: option.splits)
  show "loadedCoinsAgree now a w"
    unfolding loadedCoinsAgree_def using l by (cases a) simp_all
  show "initRecordAgrees now a w"
  proof (cases a)
    case (Init u)
    define k where "k = actor (Init u)"
    have i: "initPlayer u now w = (case getPlayer k w of None \<Rightarrow> getDefaultPlayer k now | Some stored \<Rightarrow> stored)"
      by (simp only: initPlayer_def k_def)
    with sound[of k] have ip: "p_id (initPlayer u now w) = k"
      by (auto simp: getPlayer_def soundRecords_def getDefaultPlayer_def split: option.splits)
    show ?thesis
      unfolding Init initRecordAgrees.simps loadedGameState.simps ip
      using paired[of k] i
      by (auto simp: recordsPaired_def getGameState_def getPlayer_def split: option.splits)
  qed simp_all
qed

lemma unfailing_runs_keep_coins:
  assumes "reachableUnfailing w" and "perform postId now newId random a w = (resp, w')"
  shows "responseCoinsAgree resp \<and> writtenCoinsAgree w w'"
  using assms(2) unfailing_hypotheses[OF assms(1)] by (rule perform_keeps_coins)

section \<open>Harvest\<close>

text \<open>
  The guard of the harvest handler is the stored field \<open>growthStage\<close>: a tree whose stored
  stage is below 5 is refused with zero rewards, and the world is left as it was.
\<close>

lemma harvest_guard:
  assumes "\<not> falsy postId" and "getGameState playerId w = Some gs"
    and "findIndex (\<lambda>t. t_id t = treeId) (gs_trees gs) = Some i"
    and "t_growthStage (gs_trees gs ! i) < 5"
  shows "api_harvest_tree postId playerId treeId now random w = (HarvestTreeResponse gs 0 0 0 None, w)"
  using assms by (simp add: api_harvest_tree_def)

text \<open>
  A stored tree of a reachable world has the stage 0 that \<open>/api/plant-tree\<close> writes: no
  handler changes the field, and \<open>calculateTreeGrowth\<close> is not called by any of them. So
  every harvest of a stored tree is refused.
\<close>

lemma harvest_refused:
  assumes "reachable w" and "\<not> falsy postId" and "getGameState playerId w = Some gs"
    and "findIndex (\<lambda>t. t_id t = treeId) (gs_trees gs) = Some i"
  shows "api_harvest_tree postId playerId treeId now random w = (HarvestTreeResponse gs 0 0 0 None, w)"
proof -
  have "i < length (gs_trees gs)" using assms(4) by (rule findIndex_Some_lt)
  with reachable_state(3)[OF assms(1,3)] have "asPlanted (gs_trees gs ! i)"
    by (simp add: list_all_length)
  then have "t_growthStage (gs_trees gs ! i) < 5" by (simp add: asPlanted_def)
  with assms(2-4) show ?thesis by (rule harvest_guard)
qed

text \<open>No request is answered with an accepted harvest in a reachable world.\<close>

lemma reachable_harvest_refused:
  assumes "reachable w"
  shows "\<not> harvestAccepted (fst (api_harvest_tree postId playerId treeId now random w))"
proof (cases "falsy postId \<or> getGameState playerId w = None")
  case True
  then show ?thesis by (auto simp: api_harvest_tree_def)
next
  case False
  then obtain gs where gs: "getGameState playerId w = Some gs" and np: "\<not> falsy postId" by auto
  show ?thesis
  proof (cases "findIndex (\<lambda>t. t_id t = treeId) (gs_trees gs)")
    case None
    with gs np show ?thesis by (simp add: api_harvest_tree_def)
  next
    case (Some i)
    from harvest_refused[OF assms np gs Some] show ?thesis by simp
  qed
qed



section \<open>Seed purchase\<close>

lemma buy_seeds_refused:
  assumes "\<not> falsy postId" and "getGameState playerId w = Some gs" and "isNumber q"
    and "dint (SEED_COST * q) = None \<and> 0 < q
         \<or> (\<exists>cost. dint (SEED_COST * q) = Some cost \<and> p_coins (gs_player gs) < cost)"
  shows "buy_seeds_run b postId playerId treeType (Some q) now w
           = (BuySeedsResponse gs False (Text ''Not enough coins!''), w)"
  using assms by (auto simp: buy_seeds_run_def)

lemma buy_seeds_bought:
  assumes "\<not> falsy postId" and "getGameState playerId w = Some gs" and "isNumber q"
    and "dint (SEED_COST * q) = Some cost" and "\<not> p_coins (gs_player gs) < cost"
    and "dint (p_coins (gs_player gs) - cost) = Some coins'"
    and "dint (r_seeds (gs_resources gs) + q) = Some seeds'"
  shows "api_buy_seeds postId playerId treeType (Some q) now w
           = (let player = (gs_player gs)\<lparr>p_coins := coins'\<rparr>;
                  saved = gs\<lparr>gs_player := player,
                             gs_resources := (gs_resources gs)\<lparr>r_coins := coins', r_seeds := seeds'\<rparr>,
                             gs_lastPlayed := now\<rparr>
              in (BuySeedsResponse saved True (Bought q treeType),
                  w\<lparr>redis_gameState := (redis_gameState w)(p_id (gs_player gs) \<mapsto> saved),
                    redis_player := (redis_player w)(p_id (gs_player gs) \<mapsto> player)\<rparr>))"
  using assms
  by (simp add: api_buy_seeds_def buy_seeds_run_def Let_def saveGameState_def savePlayer_def)

lemma buy_seeds_outside:
  assumes "\<not> falsy postId" and "getGameState playerId w = Some gs"
    and "\<not> isNumber q
         \<or> dint (SEED_COST * q) = None \<and> \<not> 0 < q
         \<or> (\<exists>cost. dint (SEED_COST * q) = Some cost \<and> \<not> p_coins (gs_player gs) < cost
              \<and> (dint (p_coins (gs_player gs) - cost) = None
                  \<or> dint (r_seeds (gs_resources gs) + q) = None))"
  shows "buy_seeds_run b postId playerId treeType (Some q) now w = (OutsideModel, w)"
  using assms by (auto simp: buy_seeds_run_def split: option.splits)

lemma buy_seeds_cases:
  assumes np: "\<not> falsy postId" and gs: "getGameState playerId w = Some gs"
    and run: "api_buy_seeds postId playerId treeType (Some q) now w = (resp, w')"
  obtains (outside) "resp = OutsideModel"
  | (refused) "resp = BuySeedsResponse gs False (Text ''Not enough coins!'')" "w' = w"
      "\<not> (\<exists>cost. dint (SEED_COST * q) = Some cost \<and> cost \<le> p_coins (gs_player gs))"
  | (bought) cost coins' seeds' saved where
      "dint (SEED_COST * q) = Some cost" "cost \<le> p_coins (gs_player gs)"
      "dint (p_coins (gs_player gs) - cost) = Some coins'"
      "dint (r_seeds (gs_resources gs) + q) = Some seeds'"
      "resp = BuySeedsResponse saved True (Bought q treeType)"
      "p_coins (gs_player saved) = coins'" "r_coins (gs_resources saved) = coins'"
      "r_seeds (gs_resources saved) = seeds'"
      "getGameState (p_id (gs_player gs)) w' = Some saved"
      "getPlayer (p_id (gs_player gs)) w' = Some (gs_player saved)"
proof (cases "isNumber q")
  case False
  with buy_seeds_outside[OF np gs, of q False treeType now] run show ?thesis
    by (auto simp: api_buy_seeds_def intro: outside)
next
  case n: True
  show ?thesis
  proof (cases "dint (SEED_COST * q)")
    case None
    show ?thesis
    proof (cases "0 < q")
      case True
      with buy_seeds_refused[OF np gs n, of False treeType now] None run show ?thesis
        by (auto simp: api_buy_seeds_def intro: refused)
    next
      case False
      with buy_seeds_outside[OF np gs, of q False treeType now] None run show ?thesis
        by (auto simp: api_buy_seeds_def intro: outside)
    qed
  next
    case (Some cost)
    show ?thesis
    proof (cases "p_coins (gs_player gs) < cost")
      case True
      with buy_seeds_refused[OF np gs n, of False treeType now] Some run show ?thesis
        by (auto simp: api_buy_seeds_def intro: refused)
    next
      case False
      show ?thesis
      proof (cases "dint (p_coins (gs_player gs) - cost) = None
                     \<or> dint (r_seeds (gs_resources gs) + q) = None")
        case True
        with buy_seeds_outside[OF np gs, of q False treeType now] Some False run show ?thesis
          by (auto simp: api_buy_seeds_def intro: outside)
      next
        case nn: False
        then obtain coins' seeds' where d: "dint (p_coins (gs_player gs) - cost) = Some coins'"
          "dint (r_seeds (gs_resources gs) + q) = Some seeds'" by auto
        from buy_seeds_bought[OF np gs n Some False d, of treeType now] run
        have r: "resp = BuySeedsResponse
                     (gs\<lparr>gs_player := (gs_player gs)\<lparr>p_coins := coins'\<rparr>,
                         gs_resources := (gs_resources gs)\<lparr>r_coins := coins', r_seeds := seeds'\<rparr>,
                         gs_lastPlayed := now\<rparr>) True (Bought q treeType)"
          and w: "w' = w\<lparr>redis_gameState := (redis_gameState w)(p_id (gs_player gs) \<mapsto>
                       gs\<lparr>gs_player := (gs_player gs)\<lparr>p_coins := coins'\<rparr>,
                         gs_resources := (gs_resources gs)\<lparr>r_coins := coins', r_seeds := seeds'\<rparr>,
                         gs_lastPlayed := now\<rparr>),
                    redis_player := (redis_player w)(p_id (gs_player gs) \<mapsto> (gs_player gs)\<lparr>p_coins := coins'\<rparr>)\<rparr>"
          by (simp_all add: Let_def)
        have le: "cost \<le> p_coins (gs_player gs)" using False by simp
        show ?thesis
          by (rule bought[OF Some le d r]) (simp_all add: w getGameState_def getPlayer_def)
      qed
    qed
  qed
qed

text \<open>
  Claim C10, as amended. The seed purchase does not validate the quantity. For every
  integer quantity \<open>q\<close>, zero and negative values included, a request that reaches the
  purchase (a \<open>postId\<close> in the context, a stored game state) and whose numbers stay
  finite doubles succeeds exactly when the player's coins are at least the product
  \<open>10 * q\<close> as rounded to a double; on success the player's coins and the wallet's coins
  both become the rounded difference of the coins and that product, the seeds become the
  rounded sum \<open>seeds + q\<close>, and the game state and the Player record are persisted; on
  failure nothing changes; a negative quantity always succeeds when the balance is not
  negative, as it is in every reachable world. Where \<open>10 * q\<close>, \<open>coins - 10 * q\<close> and
  \<open>seeds + q\<close> are of magnitude at most \<open>2^53\<close> nothing is rounded, the numbers stay
  finite, and the claim holds as it stands: the purchase succeeds exactly when the coins
  are at least \<open>10 * q\<close>, the coins become \<open>coins - 10 * q\<close> and the seeds \<open>seeds + q\<close>, and
  a negative quantity increases the balance.
\<close>

theorem buy_seeds_unvalidated_rounded:
  assumes "\<not> falsy postId" and "getGameState playerId w = Some gs"
    and "api_buy_seeds postId playerId treeType (Some q) now w = (resp, w')"
  shows "(resp \<noteq> OutsideModel \<longrightarrow>
           (responseSuccess resp
              = (\<exists>cost. dint (10 * q) = Some cost \<and> cost \<le> p_coins (gs_player gs)))
         \<and> (responseSuccess resp \<longrightarrow>
              (\<exists>saved. responseGameState resp = Some saved
                 \<and> p_coins (gs_player saved) = num (p_coins (gs_player gs) - num (10 * q))
                 \<and> r_coins (gs_resources saved) = num (p_coins (gs_player gs) - num (10 * q))
                 \<and> r_seeds (gs_resources saved) = num (r_seeds (gs_resources gs) + q)
                 \<and> getGameState (p_id (gs_player gs)) w' = Some saved
                 \<and> getPlayer (p_id (gs_player gs)) w' = Some (gs_player saved)))
         \<and> (\<not> responseSuccess resp \<longrightarrow> responseGameState resp = Some gs \<and> w' = w)
         \<and> (q < 0 \<and> (0 \<le> p_coins (gs_player gs) \<or> reachable w) \<longrightarrow> responseSuccess resp))
    \<and> (\<bar>10 * q\<bar> \<le> 2 ^ 53 \<and> \<bar>p_coins (gs_player gs) - 10 * q\<bar> \<le> 2 ^ 53
          \<and> \<bar>r_seeds (gs_resources gs) + q\<bar> \<le> 2 ^ 53 \<longrightarrow>
         resp \<noteq> OutsideModel
         \<and> (responseSuccess resp = (10 * q \<le> p_coins (gs_player gs)))
         \<and> (responseSuccess resp \<longrightarrow>
              (\<exists>saved. responseGameState resp = Some saved
                 \<and> p_coins (gs_player saved) = p_coins (gs_player gs) - 10 * q
                 \<and> r_coins (gs_resources saved) = p_coins (gs_player gs) - 10 * q
                 \<and> r_seeds (gs_resources saved) = r_seeds (gs_resources gs) + q
                 \<and> (q < 0 \<longrightarrow> p_coins (gs_player gs) < p_coins (gs_player saved)))))"
proof -
  have nonneg: "reachable w \<Longrightarrow> 0 \<le> p_coins (gs_player gs)"
    using reachable_state(2)[OF _ assms(2)] .
  have exact: "resp \<noteq> OutsideModel"
    if e: "\<bar>10 * q\<bar> \<le> 2 ^ 53" "\<bar>p_coins (gs_player gs) - 10 * q\<bar> \<le> 2 ^ 53"
          "\<bar>r_seeds (gs_resources gs) + q\<bar> \<le> 2 ^ 53"
  proof -
    have n: "isNumber q" using e(1) by (intro isNumber_exact) simp
    have c: "dint (SEED_COST * q) = Some (10 * q)"
      using dint_exact[OF e(1)] by (simp add: SEED_COST_def)
    show ?thesis
    proof (cases "p_coins (gs_player gs) < 10 * q")
      case True
      with buy_seeds_refused[OF assms(1,2) n, of False treeType now] c assms(3) show ?thesis
        by (auto simp: api_buy_seeds_def)
    next
      case False
      from buy_seeds_bought[OF assms(1,2) n c False dint_exact[OF e(2)] dint_exact[OF e(3)],
          of treeType now] assms(3)
      show ?thesis by (auto simp: Let_def)
    qed
  qed
  from assms show ?thesis
  proof (cases rule: buy_seeds_cases)
    case outside
    with exact show ?thesis by blast
  next
    case refused
    have "\<not> (q < 0 \<and> 0 \<le> p_coins (gs_player gs))"
    proof
      assume a: "q < 0 \<and> 0 \<le> p_coins (gs_player gs)"
      show False
      proof (cases "dint (SEED_COST * q)")
        case None
        with assms a refused(1) show False
          by (auto simp: api_buy_seeds_def buy_seeds_run_def split: if_splits)
      next
        case (Some cost)
        with dint_nonpos[OF Some] a have "cost \<le> p_coins (gs_player gs)"
          by (simp add: SEED_COST_def mult_le_0_iff)
        with refused(3) Some show False by blast
      qed
    qed
    moreover have "\<not> 10 * q \<le> p_coins (gs_player gs)"
      if e: "\<bar>10 * q\<bar> \<le> 2 ^ 53"
      using refused(3) dint_exact[OF e] by (simp add: SEED_COST_def)
    ultimately show ?thesis
      using refused nonneg by (auto simp: SEED_COST_def)
  next
    case (bought cost coins' seeds' saved)
    have c: "cost = num (10 * q)" using dint_num[OF bought(1)] by (simp add: SEED_COST_def)
    have v: "coins' = num (p_coins (gs_player gs) - num (10 * q))"
      "seeds' = num (r_seeds (gs_resources gs) + q)"
      using dint_num[OF bought(3)] dint_num[OF bought(4)] c by simp_all
    have x: "10 * q \<le> p_coins (gs_player gs) \<and> coins' = p_coins (gs_player gs) - 10 * q
             \<and> seeds' = r_seeds (gs_resources gs) + q"
      if e: "\<bar>10 * q\<bar> \<le> 2 ^ 53" "\<bar>p_coins (gs_player gs) - 10 * q\<bar> \<le> 2 ^ 53"
            "\<bar>r_seeds (gs_resources gs) + q\<bar> \<le> 2 ^ 53"
      using bought(2) v c num_exact[OF e(1)] num_exact[OF e(2)] num_exact[OF e(3)] by simp
    have s: "responseSuccess resp" "responseGameState resp = Some saved" "resp \<noteq> OutsideModel"
      using bought(5) by simp_all
    have "\<exists>cost. dint (10 * q) = Some cost \<and> cost \<le> p_coins (gs_player gs)"
      using bought(1,2) by (auto simp: SEED_COST_def)
    with s v x bought(6-10) show ?thesis by auto
  qed
qed

text \<open>
  Claim C10 does not hold as stated for large quantities: the new balance is the double
  nearest to \<open>coins - 10 * q\<close>. In the world where \<open>alice\<close> has just joined, with 200 coins
  and 5 seeds, the purchase of \<open>-2^53\<close> seeds succeeds and sets both coin fields to
  \<open>90071992547410112\<close>, whereas \<open>200 - 10 * (-2^53) = 90071992547410120\<close>: the doubles of
  this magnitude are the multiples of 16, and the tie goes to the even significand.
\<close>

theorem buy_seeds_rounds_the_balance:
  "reachable afterAliceJoins
   \<and> map_option (\<lambda>gs. (p_coins (gs_player gs), r_seeds (gs_resources gs)))
       (getGameState ''alice'' afterAliceJoins) = Some (200, 5)
   \<and> responseSuccess
       (fst (api_buy_seeds (Some ''post_1'') ''alice'' oak (Some (- 9007199254740992)) 2000
               afterAliceJoins))
   \<and> map_option (\<lambda>gs. (p_coins (gs_player gs), r_coins (gs_resources gs), r_seeds (gs_resources gs)))
       (responseGameState
          (fst (api_buy_seeds (Some ''post_1'') ''alice'' oak (Some (- 9007199254740992)) 2000
                  afterAliceJoins)))
       = Some (90071992547410112, 90071992547410112, - 9007199254740987)
   \<and> 200 - 10 * (- 9007199254740992) = (90071992547410120 :: int)"
proof -
  have a: "\<not> falsy (Some ''post_1'')" by (simp add: falsy_def)
  have b: "getGameState ''alice'' afterAliceJoins = Some state1"
    unfolding afterAliceJoins_eq by (simp add: getGameState_def)
  have c: "p_coins (gs_player state1) = 200" "r_seeds (gs_resources state1) = 5"
    by (simp_all add: state1_def getDefaultGameState_def alice1_def alice_def getDefaultPlayer_def)
  have n: "isNumber (- 9007199254740992)" by (rule isNumber_exact) simp
  have d1: "dint (SEED_COST * - 9007199254740992) = Some (- 90071992547409920)"
    using dint_cost by (simp add: SEED_COST_def)
  have d2: "dint (p_coins (gs_player state1) - - 90071992547409920) = Some 90071992547410112"
    using dint_balance by (simp add: c)
  have d3: "dint (r_seeds (gs_resources state1) + - 9007199254740992) = Some (- 9007199254740987)"
    by (simp add: c)
  have d4: "\<not> p_coins (gs_player state1) < - 90071992547409920" by (simp add: c)
  from buy_seeds_bought[OF a b n d1 d4 d2 d3, of oak 2000] reachable_afterAliceJoins b c
  show ?thesis by (simp add: Let_def)
qed

theorem buy_seeds_unvalidated_rounded_witness:
  "reachable afterAliceJoins
   \<and> responseSuccess
       (fst (api_buy_seeds (Some ''post_1'') ''alice'' oak (Some (- 5)) 2000 afterAliceJoins))
   \<and> map_option (\<lambda>gs. (p_coins (gs_player gs), r_coins (gs_resources gs), r_seeds (gs_resources gs)))
       (responseGameState
          (fst (api_buy_seeds (Some ''post_1'') ''alice'' oak (Some (- 5)) 2000 afterAliceJoins)))
       = Some (250, 250, 0)"
proof -
  have a: "\<not> falsy (Some ''post_1'')" by (simp add: falsy_def)
  have b: "getGameState ''alice'' afterAliceJoins = Some state1"
    unfolding afterAliceJoins_eq by (simp add: getGameState_def)
  have c: "p_coins (gs_player state1) = 200" "r_seeds (gs_resources state1) = 5"
    by (simp_all add: state1_def getDefaultGameState_def alice1_def alice_def getDefaultPlayer_def)
  show ?thesis
    using buy_seeds_unvalidated_rounded[OF a b surjective_pairing, of oak "- 5" 2000] c
      reachable_afterAliceJoins
    by auto
qed

end
